theory Spec2Isabelle
  imports Main
begin

section \<open>The request handler of @expo/server\<close>

text \<open>
  A shallow embedding of \<^verbatim>\<open>packages/@expo/server/src/index.ts\<close>: the function
  \<^verbatim>\<open>createRequestHandler\<close>, its inner function \<^verbatim>\<open>updateRequestWithConfig\<close> and the
  asynchronous \<^verbatim>\<open>handler\<close> it returns.

  The handler is JavaScript with effects, so the model makes them explicit.
  \<^item> A call that may throw (or a promise that may reject) yields an \<open>outcome\<close>:
    \<open>Returned v\<close> or \<open>Thrown e\<close>. Promises that never settle are outside the model.
  \<^item> The injected capabilities are impure: each takes the state of the outside world
    (a type parameter \<open>'w\<close>) and returns the new one with its outcome.
  \<^item> The variable \<^verbatim>\<open>routesManifest\<close> of the closure is a field of the handler's state,
    passed in and returned.
  \<^item> The request object is mutated in place by \<^verbatim>\<open>updateRequestWithConfig\<close>; the model
    returns the request as it stands after the call.
  \<^item> The state has a ghost field \<open>calls\<close>: the model appends an entry there at every
    invocation of an injected capability, in order, so that statements on which capability
    is invoked, with what, and how often, can be written down. The calls to \<^verbatim>\<open>debug\<close>
    only log and are left out.
\<close>

subsection \<open>Values of the platform\<close>

text \<open>
  What a \<^verbatim>\<open>throw\<close> carries: an instance of \<^verbatim>\<open>Error\<close> (with its message) or any other
  value. The handler's \<^verbatim>\<open>catch\<close> block tells them apart with \<^verbatim>\<open>instanceof Error\<close>.
\<close>

datatype thrown = ErrorInstance string | OtherThrown string

datatype 'a outcome = Returned 'a | Thrown thrown

text \<open>A response: the body and the \<^verbatim>\<open>{status, headers}\<close> it was constructed from.\<close>

record response =
  body :: string
  status :: nat
  headers :: "(string \<times> string) list"

text \<open>
  What awaiting a route handler yields. The handler's result is typed \<^verbatim>\<open>any\<close> and cast
  (\<^verbatim>\<open>as ExpoResponse\<close>, under the comment \<^verbatim>\<open>TODO: Handle undefined\<close>), so it may be
  something else than a response.
\<close>

datatype resolved = Response response | NotAResponse

text \<open>
  A compiled pattern is the function its \<^verbatim>\<open>exec\<close> computes on a path: \<^verbatim>\<open>null\<close>, or a
  match whose \<^verbatim>\<open>groups\<close> is \<^verbatim>\<open>undefined\<close> (a pattern with no named group) or an object
  that has one entry per named group of the pattern and no prototype, in the order of
  \<^verbatim>\<open>Object.entries\<close>. The value of a named group that took no part in the match (an
  optional group) is \<^verbatim>\<open>undefined\<close>. The patterns are built with \<^verbatim>\<open>new RegExp(source)\<close>,
  without flags, so \<^verbatim>\<open>test\<close> and \<^verbatim>\<open>exec\<close> keep no state between calls.
\<close>

datatype capture = Undefined | Captured string

datatype exec_result = NoMatch | Match "(string \<times> capture) list option"

type_synonym RegExp = "string \<Rightarrow> exec_result"

definition exec :: "RegExp \<Rightarrow> string \<Rightarrow> exec_result" where
  "exec re s = re s"

definition test :: "RegExp \<Rightarrow> string \<Rightarrow> bool" where
  "test re s = (exec re s \<noteq> NoMatch)"

text \<open>
  A parsed URL, as far as the handler reads it: the path and the query parameters, a
  sequence of name/value pairs.
\<close>

record URL =
  pathname :: string
  searchParams :: "(string \<times> string) list"

text \<open>
  \<^verbatim>\<open>URLSearchParams.set(name, value)\<close> of the URL standard: the first pair named \<open>name\<close>
  takes the value and the other pairs of that name are removed; with no such pair, the
  new pair is appended. \<^verbatim>\<open>getAll(name)\<close> lists the values stored under a name.
\<close>

fun searchParams_set :: "string \<Rightarrow> string \<Rightarrow> (string \<times> string) list \<Rightarrow> (string \<times> string) list" where
  "searchParams_set name v [] = [(name, v)]"
| "searchParams_set name v ((k, x) # ps) =
     (if k = name then (name, v) # filter (\<lambda>(k', x'). k' \<noteq> name) ps
      else (k, x) # searchParams_set name v ps)"

definition getAll :: "string \<Rightarrow> (string \<times> string) list \<Rightarrow> string list" where
  "getAll name ps = map snd (filter (\<lambda>(k, x). k = name) ps)"

text \<open>The conversion of an argument to a string: \<^verbatim>\<open>undefined\<close> becomes its name.\<close>

definition toUSVString :: "capture \<Rightarrow> string" where
  "toUSVString c = (case c of Undefined \<Rightarrow> ''undefined'' | Captured s \<Rightarrow> s)"

subsection \<open>The manifest and the request\<close>

record RouteInfo =
  page :: string
  file' :: string
  namedRegex :: RegExp
  routeKeys :: "string \<rightharpoonup> string"

record ExpoRoutesManifestV1 =
  htmlRoutes :: "RouteInfo list"
  apiRoutes :: "RouteInfo list"
  notFoundRoutes :: "RouteInfo list"

text \<open>
  The request: its method (the field \<^verbatim>\<open>method\<close> of the source), its URL as a string, and
  the slot \<^verbatim>\<open>request[NON_STANDARD_SYMBOL]\<close>, which holds \<^verbatim>\<open>{url: expoUrl}\<close> once set.
\<close>

record ExpoRequest =
  method' :: string
  url :: string
  nonStandard :: "URL option"

type_synonym params = "string \<rightharpoonup> capture"

subsection \<open>The injected capabilities\<close>

text \<open>
  What \<^verbatim>\<open>getApiRoute\<close> resolves to is typed \<^verbatim>\<open>any\<close>: a response, \<^verbatim>\<open>null\<close> or
  \<^verbatim>\<open>undefined\<close>, or any other value, read at the request's method. The function of a
  \<open>Module\<close> is that read, inherited members included. What is read is falsy (absent, for
  one), a function, or a truthy value that cannot be called (calling it throws a
  \<^verbatim>\<open>TypeError\<close>).
\<close>

datatype 'w export =
  Falsy
| NotCallable
| Function "ExpoRequest \<Rightarrow> params \<Rightarrow> 'w \<Rightarrow> resolved outcome \<times> 'w"

datatype 'w api_route = ApiResponse response | Nullish | Module "string \<Rightarrow> 'w export"

text \<open>What \<^verbatim>\<open>getHtml\<close> resolves to: \<^verbatim>\<open>string | ExpoResponse | null\<close>.\<close>

datatype contents = Null | Html string | ContentsResponse response

record 'w options =
  getInternalRoutesManifest ::
    "(string \<Rightarrow> 'w \<Rightarrow> ExpoRoutesManifestV1 option outcome \<times> 'w) option"
  getHtml :: "ExpoRequest \<Rightarrow> RouteInfo \<Rightarrow> 'w \<Rightarrow> contents outcome \<times> 'w"
  getApiRoute :: "RouteInfo \<Rightarrow> 'w \<Rightarrow> 'w api_route outcome \<times> 'w"
  logApiRouteExecutionError :: "thrown \<Rightarrow> 'w \<Rightarrow> unit outcome \<times> 'w"

text \<open>
  What the handler takes from its platform, as parameters of the model:
  \<^item> \<open>getRoutesManifest\<close>: the exported function of that name, which reads
    \<^verbatim>\<open>_expo/routes.json\<close> under the folder with \<^verbatim>\<open>fs.readFileSync\<close>, \<^verbatim>\<open>JSON.parse\<close>
    and \<^verbatim>\<open>new RegExp\<close>, each of which may throw;
  \<^item> \<open>newURL\<close>: \<^verbatim>\<open>new URL(input, base)\<close>, \<open>None\<close> when it throws its \<^verbatim>\<open>TypeError\<close>;
  \<^item> \<open>newExpoURL\<close>: \<^verbatim>\<open>new ExpoURL(input)\<close>, of the class \<^verbatim>\<open>ExpoURL\<close> that
    \<^verbatim>\<open>./environment\<close> declares, \<open>None\<close> when it throws;
  \<^item> \<open>objectPrototype\<close>: the members that a plain object inherits from
    \<^verbatim>\<open>Object.prototype\<close> (\<^verbatim>\<open>constructor\<close>, \<^verbatim>\<open>toString\<close>, \<^verbatim>\<open>__proto__\<close> and the
    others), each given as the string it becomes when it is used as a name.
\<close>

record 'w platform =
  getRoutesManifest :: "string \<Rightarrow> 'w \<Rightarrow> ExpoRoutesManifestV1 outcome \<times> 'w"
  newURL :: "string \<Rightarrow> string \<Rightarrow> URL option"
  newExpoURL :: "string \<Rightarrow> URL option"
  objectPrototype :: "string \<rightharpoonup> string"

subsection \<open>The state of the handler\<close>

datatype call =
  CallGetInternalRoutesManifest string
| CallGetRoutesManifest string
| CallGetHtml ExpoRequest RouteInfo
| CallGetApiRoute RouteInfo
| CallRouteHandler RouteInfo ExpoRequest params
| CallLogApiRouteExecutionError thrown

record 'w state =
  routesManifest :: "ExpoRoutesManifestV1 option"
  world :: 'w
  calls :: "call list"

text \<open>Invoking a capability: it runs on the world, and the call is recorded.\<close>

definition invoke :: "call \<Rightarrow> ('w \<Rightarrow> 'a outcome \<times> 'w) \<Rightarrow> 'w state \<Rightarrow> 'a outcome \<times> 'w state" where
  "invoke c f s =
     (case f (world s) of (r, w) \<Rightarrow> (r, s\<lparr>world := w, calls := calls s @ [c]\<rparr>))"

definition invalidURL :: thrown where
  "invalidURL = ErrorInstance ''TypeError: Invalid URL''"

definition notAFunction :: thrown where
  "notAFunction = ErrorInstance ''TypeError: routeHandler is not a function''"

subsection \<open>updateRequestWithConfig\<close>

text \<open>
  \<^verbatim>\<open>config.routeKeys[key]\<close> reads a plain object: the field \<open>routeKeys\<close> of the model
  holds its own entries, and a key that is not among them reads the member of that name
  inherited from \<^verbatim>\<open>Object.prototype\<close>, or \<^verbatim>\<open>undefined\<close> when there is none. The value
  read is used as the name of a query parameter and as the name of a property, so as a
  string: \<^verbatim>\<open>undefined\<close> becomes the string \<^verbatim>\<open>undefined\<close>.
\<close>

definition namedKeyOf :: "'w platform \<Rightarrow> (string \<rightharpoonup> string) \<Rightarrow> string \<Rightarrow> string" where
  "namedKeyOf P rk key =
     (case rk key of
        Some n \<Rightarrow> n
      | None \<Rightarrow> (case objectPrototype P key of Some inherited \<Rightarrow> inherited | None \<Rightarrow> ''undefined''))"

text \<open>
  \<^verbatim>\<open>params[namedKey] = value\<close> (line 104) assigns to the plain object \<^verbatim>\<open>{}\<close> of line
  95. The assignment creates or replaces an own property, except under the name
  \<^verbatim>\<open>__proto__\<close>: there it calls the setter inherited from \<^verbatim>\<open>Object.prototype\<close>, which
  ignores a value that is neither an object nor \<^verbatim>\<open>null\<close>, and nothing is stored. A value
  of type \<open>params\<close> holds the own properties of the object.
\<close>

definition assignProperty :: "params \<Rightarrow> string \<Rightarrow> capture \<Rightarrow> params" where
  "assignProperty ps name v = (if name = ''__proto__'' then ps else ps(name \<mapsto> v))"

text \<open>
  The loop over \<^verbatim>\<open>Object.entries(match.groups)\<close> (lines 101 to 105), on the URL and
  the \<^verbatim>\<open>params\<close> object it updates.
\<close>

fun assignGroups ::
  "'w platform \<Rightarrow> (string \<rightharpoonup> string) \<Rightarrow> (string \<times> capture) list \<Rightarrow> URL \<times> params
     \<Rightarrow> URL \<times> params" where
  "assignGroups P rk [] acc = acc"
| "assignGroups P rk ((key, v) # rest) (expoUrl, ps) =
     (let namedKey = namedKeyOf P rk key
      in assignGroups P rk rest
           (expoUrl\<lparr>searchParams := searchParams_set namedKey (toUSVString v) (searchParams expoUrl)\<rparr>,
            assignProperty ps namedKey v))"

definition updateRequestWithConfig ::
  "'w platform \<Rightarrow> ExpoRequest \<Rightarrow> RouteInfo \<Rightarrow> (params \<times> ExpoRequest) outcome" where
  "updateRequestWithConfig P request config =
     (case newExpoURL P (url request) of
        None \<Rightarrow> Thrown invalidURL
      | Some expoUrl \<Rightarrow>
          (case (case exec (namedRegex config) (pathname expoUrl) of
                   Match (Some gs) \<Rightarrow> assignGroups P (routeKeys config) gs (expoUrl, Map.empty)
                 | _ \<Rightarrow> (expoUrl, Map.empty)) of
             (expoUrl', ps) \<Rightarrow> Returned (ps, request\<lparr>nonStandard := Some expoUrl'\<rparr>)))"

subsection \<open>The handler\<close>

definition plainText :: "(string \<times> string) list" where
  "plainText = [(''Content-Type'', ''text/plain'')]"

definition textHtml :: "(string \<times> string) list" where
  "textHtml = [(''Content-Type'', ''text/html'')]"

text \<open>
  Lines 115 to 130: the manifest of this call. \<open>Inl\<close> is the response returned early,
  or the exception of the supplier or of the loader.
\<close>

definition acquireManifest ::
  "'w platform \<Rightarrow> string \<Rightarrow> 'w options \<Rightarrow> 'w state
     \<Rightarrow> (resolved outcome + ExpoRoutesManifestV1) \<times> 'w state" where
  "acquireManifest P distFolder opts s =
     (case getInternalRoutesManifest opts of
        Some getInternal \<Rightarrow>
          (case invoke (CallGetInternalRoutesManifest distFolder) (getInternal distFolder) s of
             (Thrown e, s1) \<Rightarrow> (Inl (Thrown e), s1)
           | (Returned (Some manifest), s1) \<Rightarrow>
               (Inr manifest, s1\<lparr>routesManifest := Some manifest\<rparr>)
           | (Returned None, s1) \<Rightarrow>
               (Inl (Returned (Response
                  \<lparr>body = ''No routes manifest found'', status = 404, headers = plainText\<rparr>)), s1))
      | None \<Rightarrow>
          (case routesManifest s of
             Some manifest \<Rightarrow> (Inr manifest, s)
           | None \<Rightarrow>
               (case invoke (CallGetRoutesManifest distFolder) (getRoutesManifest P distFolder) s of
                  (Thrown e, s1) \<Rightarrow> (Inl (Thrown e), s1)
                | (Returned manifest, s1) \<Rightarrow>
                    (Inr manifest, s1\<lparr>routesManifest := Some manifest\<rparr>))))"

text \<open>
  The body of the loops over \<^verbatim>\<open>htmlRoutes\<close> (lines 146 to 168) and over
  \<^verbatim>\<open>notFoundRoutes\<close> (lines 221 to 243) for a route that matches. The two bodies are the
  same text but for the status of the response built from a string: 200 and 404.
  \<^verbatim>\<open>!contents\<close> holds of \<^verbatim>\<open>null\<close> and of the empty string, so the case
  \<open>Null\<close> of the distinction that follows it is never reached.
\<close>

definition serveContents ::
  "'w platform \<Rightarrow> 'w options \<Rightarrow> nat \<Rightarrow> RouteInfo \<Rightarrow> ExpoRequest \<Rightarrow> 'w state
     \<Rightarrow> resolved outcome \<times> ExpoRequest \<times> 'w state" where
  "serveContents P opts st route request s =
     (case updateRequestWithConfig P request route of
        Thrown e \<Rightarrow> (Thrown e, request, s)
      | Returned (ps, request') \<Rightarrow>
          (case invoke (CallGetHtml request' route) (getHtml opts request' route) s of
             (Thrown e, s1) \<Rightarrow> (Thrown e, request', s1)
           | (Returned cs, s1) \<Rightarrow>
               (if cs = Null \<or> cs = Html [] then
                  (Returned (Response \<lparr>body = ''Not found'', status = 404, headers = plainText\<rparr>),
                   request', s1)
                else
                  (case cs of
                     ContentsResponse r \<Rightarrow> (Returned (Response r), request', s1)
                   | Html c \<Rightarrow>
                       (Returned (Response \<lparr>body = c, status = st, headers = textHtml\<rparr>),
                        request', s1)
                   | Null \<Rightarrow>
                       (Returned (Response \<lparr>body = ''Not found'', status = 404, headers = plainText\<rparr>),
                        request', s1)))))"

text \<open>
  The loops return \<open>None\<close> when they end without a \<^verbatim>\<open>return\<close>, and the handler goes on
  after them.
\<close>

fun htmlLoop ::
  "'w platform \<Rightarrow> 'w options \<Rightarrow> string \<Rightarrow> RouteInfo list \<Rightarrow> ExpoRequest \<Rightarrow> 'w state
     \<Rightarrow> (resolved outcome \<times> ExpoRequest \<times> 'w state) option" where
  "htmlLoop P opts sanitizedPathname [] request s = None"
| "htmlLoop P opts sanitizedPathname (route # routes) request s =
     (if \<not> test (namedRegex route) sanitizedPathname
      then htmlLoop P opts sanitizedPathname routes request s
      else Some (serveContents P opts 200 route request s))"

text \<open>
  The \<^verbatim>\<open>catch\<close> block of lines 200 to 211: the hook is called on an instance of
  \<^verbatim>\<open>Error\<close> only, and an exception of the hook leaves the handler.
\<close>

definition catchBlock :: "'w options \<Rightarrow> thrown \<Rightarrow> 'w state \<Rightarrow> resolved outcome \<times> 'w state" where
  "catchBlock opts error s =
     (case (case error of
              ErrorInstance msg \<Rightarrow>
                invoke (CallLogApiRouteExecutionError error) (logApiRouteExecutionError opts error) s
            | OtherThrown x \<Rightarrow> (Returned (), s)) of
        (Thrown e, s1) \<Rightarrow> (Thrown e, s1)
      | (Returned u, s1) \<Rightarrow>
          (Returned (Response
             \<lparr>body = ''Internal server error'', status = 500, headers = plainText\<rparr>), s1))"

text \<open>The body of the loop over \<^verbatim>\<open>apiRoutes\<close> (lines 178 to 211) for a route that matches.\<close>

definition serveApi ::
  "'w platform \<Rightarrow> 'w options \<Rightarrow> RouteInfo \<Rightarrow> ExpoRequest \<Rightarrow> 'w state
     \<Rightarrow> resolved outcome \<times> ExpoRequest \<times> 'w state" where
  "serveApi P opts route request s =
     (case invoke (CallGetApiRoute route) (getApiRoute opts route) s of
        (Thrown e, s1) \<Rightarrow> (Thrown e, request, s1)
      | (Returned (ApiResponse r), s1) \<Rightarrow> (Returned (Response r), request, s1)
      | (Returned func, s1) \<Rightarrow>
          (case (case func of Module exports \<Rightarrow> exports (method' request) | _ \<Rightarrow> Falsy) of
             Falsy \<Rightarrow>
               (Returned (Response
                  \<lparr>body = ''Method not allowed'', status = 405, headers = plainText\<rparr>),
                request, s1)
           | routeHandler \<Rightarrow>
               (case updateRequestWithConfig P request route of
                  Thrown e \<Rightarrow> (Thrown e, request, s1)
                | Returned (ps, request') \<Rightarrow>
                    (case routeHandler of
                       Function f \<Rightarrow>
                         (case invoke (CallRouteHandler route request' ps) (f request' ps) s1 of
                            (Returned v, s2) \<Rightarrow> (Returned v, request', s2)
                          | (Thrown error, s2) \<Rightarrow>
                              (case catchBlock opts error s2 of (r, s3) \<Rightarrow> (r, request', s3)))
                     | _ \<Rightarrow>
                         (case catchBlock opts notAFunction s1 of (r, s3) \<Rightarrow> (r, request', s3))))))"

fun apiLoop ::
  "'w platform \<Rightarrow> 'w options \<Rightarrow> string \<Rightarrow> RouteInfo list \<Rightarrow> ExpoRequest \<Rightarrow> 'w state
     \<Rightarrow> (resolved outcome \<times> ExpoRequest \<times> 'w state) option" where
  "apiLoop P opts sanitizedPathname [] request s = None"
| "apiLoop P opts sanitizedPathname (route # routes) request s =
     (if \<not> test (namedRegex route) sanitizedPathname
      then apiLoop P opts sanitizedPathname routes request s
      else Some (serveApi P opts route request s))"

fun notFoundLoop ::
  "'w platform \<Rightarrow> 'w options \<Rightarrow> string \<Rightarrow> RouteInfo list \<Rightarrow> ExpoRequest \<Rightarrow> 'w state
     \<Rightarrow> (resolved outcome \<times> ExpoRequest \<times> 'w state) option" where
  "notFoundLoop P opts sanitizedPathname [] request s = None"
| "notFoundLoop P opts sanitizedPathname (route # routes) request s =
     (if \<not> test (namedRegex route) sanitizedPathname
      then notFoundLoop P opts sanitizedPathname routes request s
      else Some (serveContents P opts 404 route request s))"

text \<open>Lines 132 to 254: the handler once it holds the manifest of the call.\<close>

definition dispatch ::
  "'w platform \<Rightarrow> 'w options \<Rightarrow> ExpoRoutesManifestV1 \<Rightarrow> ExpoRequest \<Rightarrow> 'w state
     \<Rightarrow> resolved outcome \<times> ExpoRequest \<times> 'w state" where
  "dispatch P opts manifest request s =
     (case newURL P (url request) ''http://expo.dev'' of
        None \<Rightarrow> (Thrown invalidURL, request, s)
      | Some u \<Rightarrow>
          (case (if method' request = ''GET'' \<or> method' request = ''HEAD''
                 then htmlLoop P opts (pathname u) (htmlRoutes manifest) request s
                 else None) of
             Some r \<Rightarrow> r
           | None \<Rightarrow>
               (case apiLoop P opts (pathname u) (apiRoutes manifest) request s of
                  Some r \<Rightarrow> r
                | None \<Rightarrow>
                    (case notFoundLoop P opts (pathname u) (notFoundRoutes manifest) request s of
                       Some r \<Rightarrow> r
                     | None \<Rightarrow>
                         (Returned (Response
                            \<lparr>body = ''Not found'', status = 404, headers = plainText\<rparr>),
                          request, s)))))"

definition handler ::
  "'w platform \<Rightarrow> string \<Rightarrow> 'w options \<Rightarrow> ExpoRequest \<Rightarrow> 'w state
     \<Rightarrow> resolved outcome \<times> ExpoRequest \<times> 'w state" where
  "handler P distFolder opts request s =
     (case acquireManifest P distFolder opts s of
        (Inl early, s1) \<Rightarrow> (early, request, s1)
      | (Inr manifest, s1) \<Rightarrow> dispatch P opts manifest request s1)"

subsection \<open>Properties of the capabilities\<close>

text \<open>The descriptor a recorded call was made for, if it was made for one.\<close>

fun routeOf :: "call \<Rightarrow> RouteInfo option" where
  "routeOf (CallGetHtml request route) = Some route"
| "routeOf (CallGetApiRoute route) = Some route"
| "routeOf (CallRouteHandler route request ps) = Some route"
| "routeOf (CallGetInternalRoutesManifest d) = None"
| "routeOf (CallGetRoutesManifest d) = None"
| "routeOf (CallLogApiRouteExecutionError e) = None"

text \<open>
  Deterministic capabilities: what a capability, or a route handler of a module that
  \<open>getApiRoute\<close> resolves to, returns or throws does not depend on the state of the world.
\<close>

definition deterministic :: "'w platform \<Rightarrow> 'w options \<Rightarrow> bool" where
  "deterministic P opts \<longleftrightarrow>
     (\<forall>d w w'. fst (getRoutesManifest P d w) = fst (getRoutesManifest P d w')) \<and>
     (\<forall>g d w w'. getInternalRoutesManifest opts = Some g \<longrightarrow> fst (g d w) = fst (g d w')) \<and>
     (\<forall>req r w w'. fst (getHtml opts req r w) = fst (getHtml opts req r w')) \<and>
     (\<forall>r w w'. fst (getApiRoute opts r w) = fst (getApiRoute opts r w')) \<and>
     (\<forall>e w w'. fst (logApiRouteExecutionError opts e w) = fst (logApiRouteExecutionError opts e w')) \<and>
     (\<forall>r w exports m f req ps w1 w2.
        fst (getApiRoute opts r w) = Returned (Module exports) \<longrightarrow> exports m = Function f \<longrightarrow>
        fst (f req ps w1) = fst (f req ps w2))"


subsection \<open>An example deployment\<close>

text \<open>
  A small deployment on which the theorems below are instantiated. Its world is a counter
  that every capability increments. Its patterns are written as the functions that the
  regular expressions in the comments compute; its URL parser reads the URLs
  \<^verbatim>\<open>http://expo.dev<path>\<close> that carry no query.
\<close>

fun stripPrefix :: "string \<Rightarrow> string \<Rightarrow> string option" where
  "stripPrefix [] s = Some s"
| "stripPrefix (c # cs) [] = None"
| "stripPrefix (c # cs) (d # ds) = (if c = d then stripPrefix cs ds else None)"

definition exParse :: "string \<Rightarrow> URL option" where
  "exParse input =
     (case stripPrefix ''http://expo.dev'' input of
        None \<Rightarrow> None
      | Some rest \<Rightarrow>
          (if rest = [] then Some \<lparr>pathname = ''/'', searchParams = []\<rparr>
           else if hd rest = CHR ''/'' \<and> CHR ''?'' \<notin> set rest \<and> CHR ''#'' \<notin> set rest
           then Some \<lparr>pathname = rest, searchParams = []\<rparr>
           else None))"

text \<open>\<^verbatim>\<open>^/$\<close>, \<^verbatim>\<open>^/empty$\<close> and \<^verbatim>\<open>^/broken$\<close>: no named group.\<close>

definition literalRegex :: "string \<Rightarrow> RegExp" where
  "literalRegex l p = (if p = l then Match None else NoMatch)"

text \<open>\<^verbatim>\<open>^/users/(?<id>[^/]+?)$\<close>\<close>

definition usersRegex :: RegExp where
  "usersRegex p =
     (case stripPrefix ''/users/'' p of
        None \<Rightarrow> NoMatch
      | Some rest \<Rightarrow>
          (if rest \<noteq> [] \<and> CHR ''/'' \<notin> set rest then Match (Some [(''id'', Captured rest)])
           else NoMatch))"

text \<open>\<^verbatim>\<open>^/users/(?<rest>.+?)$\<close>\<close>

definition usersRestRegex :: RegExp where
  "usersRestRegex p =
     (case stripPrefix ''/users/'' p of
        None \<Rightarrow> NoMatch
      | Some rest \<Rightarrow> (if rest \<noteq> [] then Match (Some [(''rest'', Captured rest)]) else NoMatch))"

text \<open>\<^verbatim>\<open>^/blog(?:/(?<slug>.+?))?$\<close>: the group is optional.\<close>

definition blogRegex :: RegExp where
  "blogRegex p =
     (case stripPrefix ''/blog'' p of
        None \<Rightarrow> NoMatch
      | Some rest \<Rightarrow>
          (if rest = [] then Match (Some [(''slug'', Undefined)])
           else if hd rest = CHR ''/'' \<and> tl rest \<noteq> [] then Match (Some [(''slug'', Captured (tl rest))])
           else NoMatch))"

text \<open>\<^verbatim>\<open>^/(?<notfound>.+?)$\<close>\<close>

definition notFoundRegex :: RegExp where
  "notFoundRegex p =
     (case stripPrefix ''/'' p of
        None \<Rightarrow> NoMatch
      | Some rest \<Rightarrow> (if rest \<noteq> [] then Match (Some [(''notfound'', Captured rest)]) else NoMatch))"

definition indexRoute :: RouteInfo where
  "indexRoute = \<lparr>page = ''/index'', file' = ''./index.js'',
     namedRegex = literalRegex ''/'', routeKeys = Map.empty\<rparr>"

definition emptyRoute :: RouteInfo where
  "emptyRoute = \<lparr>page = ''/empty'', file' = ''./empty.js'',
     namedRegex = literalRegex ''/empty'', routeKeys = Map.empty\<rparr>"

definition brokenRoute :: RouteInfo where
  "brokenRoute = \<lparr>page = ''/broken'', file' = ''./broken.js'',
     namedRegex = literalRegex ''/broken'', routeKeys = Map.empty\<rparr>"

definition blogRoute :: RouteInfo where
  "blogRoute = \<lparr>page = ''/blog/[[...slug]]'', file' = ''./blog/[[...slug]].js'',
     namedRegex = blogRegex, routeKeys = [''slug'' \<mapsto> ''slug'']\<rparr>"

definition usersRoute :: RouteInfo where
  "usersRoute = \<lparr>page = ''/users/[id]'', file' = ''_expo/functions/users/[id]+api.js'',
     namedRegex = usersRegex, routeKeys = [''id'' \<mapsto> ''id'']\<rparr>"

definition usersRestRoute :: RouteInfo where
  "usersRestRoute = \<lparr>page = ''/users/[...rest]'', file' = ''_expo/functions/users/[...rest]+api.js'',
     namedRegex = usersRestRegex, routeKeys = [''rest'' \<mapsto> ''rest'']\<rparr>"

definition goneRoute :: RouteInfo where
  "goneRoute = \<lparr>page = ''/gone'', file' = ''_expo/functions/gone+api.js'',
     namedRegex = literalRegex ''/gone'', routeKeys = Map.empty\<rparr>"

definition notFoundRoute :: RouteInfo where
  "notFoundRoute = \<lparr>page = ''/+not-found'', file' = ''./+not-found.js'',
     namedRegex = notFoundRegex, routeKeys = [''notfound'' \<mapsto> ''not-found'']\<rparr>"

definition exManifest :: ExpoRoutesManifestV1 where
  "exManifest = \<lparr>htmlRoutes = [indexRoute, emptyRoute, brokenRoute, blogRoute],
     apiRoutes = [usersRoute, usersRestRoute, goneRoute],
     notFoundRoutes = [notFoundRoute]\<rparr>"

text \<open>
  The members of \<^verbatim>\<open>Object.prototype\<close>, with the strings that Node.js turns them into:
  the object itself under \<^verbatim>\<open>__proto__\<close>, functions under the other names.
\<close>

definition exObjectPrototype :: "string \<rightharpoonup> string" where
  "exObjectPrototype name =
     (if name = ''__proto__'' then Some ''[object Object]''
      else if name = ''constructor'' then Some ''function Object() { [native code] }''
      else if name \<in> set [''__defineGetter__'', ''__defineSetter__'', ''hasOwnProperty'',
                ''__lookupGetter__'', ''__lookupSetter__'', ''isPrototypeOf'',
                ''propertyIsEnumerable'', ''toString'', ''valueOf'', ''toLocaleString'']
      then Some (''function '' @ name @ ''() { [native code] }'')
      else None)"

definition exPlatform :: "nat platform" where
  "exPlatform = \<lparr>getRoutesManifest = (\<lambda>d w. (Returned exManifest, Suc w)),
     newURL = (\<lambda>input base. exParse input), newExpoURL = exParse,
     objectPrototype = exObjectPrototype\<rparr>"

definition userResponse :: response where
  "userResponse = \<lparr>body = ''user 42'', status = 200,
     headers = [(''Content-Type'', ''application/json'')]\<rparr>"

text \<open>
  The module of the users route: \<^verbatim>\<open>GET\<close> returns a response, \<^verbatim>\<open>DELETE\<close> throws an
  \<^verbatim>\<open>Error\<close>, \<^verbatim>\<open>PUT\<close> throws a string, \<^verbatim>\<open>PATCH\<close> returns \<^verbatim>\<open>undefined\<close>.
\<close>

definition usersModule :: "string \<Rightarrow> nat export" where
  "usersModule m =
     (if m = ''GET'' then Function (\<lambda>req ps w. (Returned (Response userResponse), Suc w))
      else if m = ''DELETE'' then Function (\<lambda>req ps w. (Thrown (ErrorInstance ''no such user''), Suc w))
      else if m = ''PUT'' then Function (\<lambda>req ps w. (Thrown (OtherThrown ''read only''), Suc w))
      else if m = ''PATCH'' then Function (\<lambda>req ps w. (Returned NotAResponse, Suc w))
      else Falsy)"

definition exGetHtml :: "ExpoRequest \<Rightarrow> RouteInfo \<Rightarrow> nat \<Rightarrow> contents outcome \<times> nat" where
  "exGetHtml req route w =
     (if page route = ''/broken'' then Thrown (ErrorInstance ''EACCES: permission denied'')
      else if page route = ''/index'' then Returned (Html ''<h1>Home</h1>'')
      else if page route = ''/+not-found'' then Returned (Html ''<h1>Lost</h1>'')
      else if page route = ''/empty'' then Returned (Html [])
      else Returned Null,
      Suc w)"

definition exGetApiRoute :: "RouteInfo \<Rightarrow> nat \<Rightarrow> nat api_route outcome \<times> nat" where
  "exGetApiRoute route w =
     (Returned (if page route = ''/users/[id]'' then Module usersModule else Nullish), Suc w)"

definition exOptions :: "nat options" where
  "exOptions = \<lparr>getInternalRoutesManifest = None, getHtml = exGetHtml,
     getApiRoute = exGetApiRoute,
     logApiRouteExecutionError = (\<lambda>e w. (Returned (), Suc w))\<rparr>"

text \<open>The same deployment with a manifest supplier that finds no manifest.\<close>

definition exUnconfigured :: "nat options" where
  "exUnconfigured = exOptions\<lparr>getInternalRoutesManifest := Some (\<lambda>d w. (Returned None, Suc w))\<rparr>"


text \<open>
  \<^verbatim>\<open>^/(?<lang>[^/]+?)/blog(?:/(?<slug>.+?))?$\<close>: a descriptor with a required group
  and an optional one.
\<close>

definition langBlogRegex :: RegExp where
  "langBlogRegex p =
     (case stripPrefix ''/'' p of
        None \<Rightarrow> NoMatch
      | Some rest \<Rightarrow>
          (let lang = takeWhile (\<lambda>c. c \<noteq> CHR ''/'') rest
           in if lang = [] then NoMatch
              else (case stripPrefix ''/blog'' (dropWhile (\<lambda>c. c \<noteq> CHR ''/'') rest) of
                      None \<Rightarrow> NoMatch
                    | Some tail \<Rightarrow>
                        (if tail = []
                         then Match (Some [(''lang'', Captured lang), (''slug'', Undefined)])
                         else if hd tail = CHR ''/'' \<and> tl tail \<noteq> []
                         then Match (Some [(''lang'', Captured lang), (''slug'', Captured (tl tail))])
                         else NoMatch))))"

definition langBlogRoute :: RouteInfo where
  "langBlogRoute = \<lparr>page = ''/[lang]/blog/[[...slug]]'', file' = ''./[lang]/blog/[[...slug]].js'',
     namedRegex = langBlogRegex, routeKeys = [''lang'' \<mapsto> ''lang'', ''slug'' \<mapsto> ''slug'']\<rparr>"

text \<open>A URL parser that reads a query as well: \<^verbatim>\<open>http://expo.dev<path>?<name>=<value>&...\<close>\<close>

fun splitOn :: "char \<Rightarrow> string \<Rightarrow> string list" where
  "splitOn c [] = [[]]"
| "splitOn c (x # xs) =
     (if x = c then [] # splitOn c xs
      else (case splitOn c xs of [] \<Rightarrow> [[x]] | y # ys \<Rightarrow> (x # y) # ys))"

definition exParseQuery :: "string \<Rightarrow> URL option" where
  "exParseQuery input =
     (case stripPrefix ''http://expo.dev'' input of
        None \<Rightarrow> None
      | Some rest \<Rightarrow>
          (case splitOn (CHR ''?'') rest of
             [p, q] \<Rightarrow>
               (if p \<noteq> [] \<and> hd p = CHR ''/'' \<and> CHR ''#'' \<notin> set rest
                then Some \<lparr>pathname = p,
                       searchParams = map (\<lambda>pair. case splitOn (CHR ''='') pair of
                                                   [k, v] \<Rightarrow> (k, v) | _ \<Rightarrow> (pair, []))
                                          (splitOn (CHR ''&'') q)\<rparr>
                else None)
           | _ \<Rightarrow> exParse input))"

definition exQueryPlatform :: "nat platform" where
  "exQueryPlatform = exPlatform\<lparr>newURL := (\<lambda>input base. exParseQuery input),
     newExpoURL := exParseQuery\<rparr>"

text \<open>
  \<^verbatim>\<open>^/pair/(?<a>[^/]+?)/(?<b>[^/]+?)$\<close>, in a descriptor whose two groups have the
  same public name, and a descriptor of the pattern of the users route whose group has the
  public name \<^verbatim>\<open>__proto__\<close>.
\<close>

definition pairRegex :: RegExp where
  "pairRegex p =
     (case stripPrefix ''/pair/'' p of
        None \<Rightarrow> NoMatch
      | Some rest \<Rightarrow>
          (case splitOn (CHR ''/'') rest of
             [x, y] \<Rightarrow>
               (if x \<noteq> [] \<and> y \<noteq> [] then Match (Some [(''a'', Captured x), (''b'', Captured y)])
                else NoMatch)
           | _ \<Rightarrow> NoMatch))"

definition pairRoute :: RouteInfo where
  "pairRoute = \<lparr>page = ''/pair/[id]/[id]'', file' = ''./pair/[id]/[id].js'',
     namedRegex = pairRegex, routeKeys = [''a'' \<mapsto> ''id'', ''b'' \<mapsto> ''id'']\<rparr>"

definition protoRoute :: RouteInfo where
  "protoRoute = \<lparr>page = ''/users/[__proto__]'', file' = ''./users/[__proto__].js'',
     namedRegex = usersRegex, routeKeys = [''id'' \<mapsto> ''__proto__'']\<rparr>"

text \<open>
  A manifest in which every category has two descriptors that match a same path, held by the
  handler from an earlier call, and a \<open>getHtml\<close> that answers with the page of the
  descriptor it is called for. \<^verbatim>\<open>^/blog/(?<rest>.+?)$\<close> is the pattern of the second
  descriptor for the paths under \<^verbatim>\<open>/blog\<close>.
\<close>

definition blogRestRegex :: RegExp where
  "blogRestRegex p =
     (case stripPrefix ''/blog/'' p of
        None \<Rightarrow> NoMatch
      | Some rest \<Rightarrow> (if rest \<noteq> [] then Match (Some [(''rest'', Captured rest)]) else NoMatch))"

definition blogRestRoute :: RouteInfo where
  "blogRestRoute = \<lparr>page = ''/blog/[...rest]'', file' = ''./blog/[...rest].js'',
     namedRegex = blogRestRegex, routeKeys = [''rest'' \<mapsto> ''rest'']\<rparr>"

definition missingRoute :: RouteInfo where
  "missingRoute = \<lparr>page = ''/[...missing]'', file' = ''./[...missing].js'',
     namedRegex = notFoundRegex, routeKeys = [''notfound'' \<mapsto> ''missing'']\<rparr>"

definition exOverlap :: ExpoRoutesManifestV1 where
  "exOverlap = \<lparr>htmlRoutes = [indexRoute, blogRoute, blogRestRoute],
     apiRoutes = [goneRoute, usersRoute, usersRestRoute],
     notFoundRoutes = [notFoundRoute, missingRoute]\<rparr>"

definition exEcho :: "nat options" where
  "exEcho = exOptions\<lparr>getHtml := (\<lambda>req route w. (Returned (Html (page route)), Suc w))\<rparr>"

definition exOverlapCached :: "nat state" where
  "exOverlapCached = \<lparr>routesManifest = Some exOverlap, world = 0, calls = []\<rparr>"

definition exRequest :: "string \<Rightarrow> string \<Rightarrow> ExpoRequest" where
  "exRequest m u = \<lparr>method' = m, url = u, nonStandard = None\<rparr>"

text \<open>The state before the first call, and a state that holds a manifest.\<close>

definition exStart :: "nat state" where
  "exStart = \<lparr>routesManifest = None, world = 0, calls = []\<rparr>"

definition exCached :: "nat state" where
  "exCached = \<lparr>routesManifest = Some exManifest, world = 7, calls = []\<rparr>"

section \<open>Auxiliary facts\<close>

lemmas ex_defs = exParse_def literalRegex_def usersRegex_def usersRestRegex_def blogRegex_def
  notFoundRegex_def indexRoute_def emptyRoute_def brokenRoute_def blogRoute_def usersRoute_def
  usersRestRoute_def goneRoute_def notFoundRoute_def exManifest_def exPlatform_def userResponse_def
  usersModule_def exGetHtml_def exGetApiRoute_def exOptions_def exRequest_def exStart_def
  exCached_def

lemmas model_defs = handler_def acquireManifest_def dispatch_def serveContents_def serveApi_def
  catchBlock_def updateRequestWithConfig_def invoke_def test_def exec_def namedKeyOf_def
  assignProperty_def toUSVString_def plainText_def textHtml_def invalidURL_def notAFunction_def
  Let_def

text \<open>
  The name read for a group from a mapping without an entry for it: an inherited member
  where the plain object has one, \<^verbatim>\<open>undefined\<close> otherwise; and the assignment to
  \<^verbatim>\<open>params\<close> under \<^verbatim>\<open>__proto__\<close>, which stores nothing.
\<close>

lemma namedKeyOf_inherited:
  "namedKeyOf exPlatform Map.empty ''constructor'' = ''function Object() { [native code] }''
   \<and> namedKeyOf exPlatform Map.empty ''id'' = ''undefined''
   \<and> namedKeyOf exPlatform [''id'' \<mapsto> ''user''] ''id'' = ''user''"
  by (simp add: namedKeyOf_def exPlatform_def exObjectPrototype_def)

lemma assignProperty_proto:
  "assignProperty ps ''__proto__'' v = ps \<and> assignProperty ps ''constructor'' v ''constructor'' = Some v"
  by (simp add: assignProperty_def)

text \<open>Each loop serves the first descriptor of its list whose pattern matches the path.\<close>

lemma htmlLoop_find:
  "htmlLoop P opts p rs req s =
     map_option (\<lambda>r. serveContents P opts 200 r req s) (find (\<lambda>r. test (namedRegex r) p) rs)"
  by (induction rs) simp_all

lemma apiLoop_find:
  "apiLoop P opts p rs req s =
     map_option (\<lambda>r. serveApi P opts r req s) (find (\<lambda>r. test (namedRegex r) p) rs)"
  by (induction rs) simp_all

lemma notFoundLoop_find:
  "notFoundLoop P opts p rs req s =
     map_option (\<lambda>r. serveContents P opts 404 r req s) (find (\<lambda>r. test (namedRegex r) p) rs)"
  by (induction rs) simp_all

lemmas loops_find = htmlLoop_find apiLoop_find notFoundLoop_find

lemma handler_acquired:
  "acquireManifest P distFolder opts s = (Inr manifest, s') \<Longrightarrow>
     handler P distFolder opts request s = dispatch P opts manifest request s'"
  by (simp add: handler_def)

section \<open>The claims\<close>

text \<open>
  In the statements below, \<open>acquireManifest P distFolder opts s = (Inr manifest, s')\<close> says
  that the call obtained the manifest \<open>manifest\<close> (from the supplier, from the loader or
  from the variable \<^verbatim>\<open>routesManifest\<close>), and
  \<open>find (\<lambda>r. test (namedRegex r) (pathname u)) routes = Some route\<close> that \<open>route\<close> is the
  first descriptor of \<open>routes\<close> whose pattern matches the path of the request.
  \<open>updateRequestWithConfig P request route = Returned (ps, request')\<close> says that the
  request was augmented for the descriptor (its URL parsed), with the parameters \<open>ps\<close>
  and the request \<open>request'\<close> as the result.
\<close>

subsection \<open>C6: a page served from the HTML routes\<close>

text \<open>
  C6. For a \<^verbatim>\<open>GET\<close> or \<^verbatim>\<open>HEAD\<close> request whose path matches a descriptor of
  \<^verbatim>\<open>htmlRoutes\<close> and for which \<open>getHtml\<close> resolves to a string that is not empty, the
  handler returns a response of status 200, content type \<^verbatim>\<open>text/html\<close> and that string as
  its body.
\<close>

theorem html_200:
  assumes "acquireManifest P distFolder opts s = (Inr manifest, s')"
    and "method' request = ''GET'' \<or> method' request = ''HEAD''"
    and "newURL P (url request) ''http://expo.dev'' = Some u"
    and "find (\<lambda>r. test (namedRegex r) (pathname u)) (htmlRoutes manifest) = Some route"
    and "updateRequestWithConfig P request route = Returned (ps, request')"
    and "getHtml opts request' route (world s') = (Returned (Html c), w)"
    and "c \<noteq> []"
  shows "fst (handler P distFolder opts request s) =
     Returned (Response \<lparr>body = c, status = 200, headers = [(''Content-Type'', ''text/html'')]\<rparr>)"
  using assms
  by (auto simp add: handler_acquired dispatch_def htmlLoop_find serveContents_def invoke_def
      textHtml_def)

theorem html_200_witness:
  "fst (handler exPlatform ''dist'' exOptions (exRequest ''GET'' ''http://expo.dev/'') exStart) =
     Returned (Response \<lparr>body = ''<h1>Home</h1>'', status = 200,
                         headers = [(''Content-Type'', ''text/html'')]\<rparr>)"
  by (rule html_200 [where manifest = exManifest and route = indexRoute
        and s' = "\<lparr>routesManifest = Some exManifest, world = 1,
                    calls = [CallGetRoutesManifest ''dist'']\<rparr>"
        and u = "\<lparr>pathname = ''/'', searchParams = []\<rparr>" and ps = Map.empty
        and request' = "\<lparr>method' = ''GET'', url = ''http://expo.dev/'',
                          nonStandard = Some \<lparr>pathname = ''/'', searchParams = []\<rparr>\<rparr>"
        and w = 2])
    (simp_all add: ex_defs model_defs)

subsection \<open>C8: a supplier that finds no manifest\<close>

text \<open>
  C8. When a manifest supplier is configured and yields \<^verbatim>\<open>null\<close> for the call, the handler
  returns a response of status 404 with a diagnostic plain-text body. The only capability it
  invokes is the supplier, so the error-reporting hook is not invoked, and a manifest held
  from an earlier call is neither used nor dropped.
\<close>

theorem supplier_null:
  assumes "getInternalRoutesManifest opts = Some getInternal"
    and "getInternal distFolder (world s) = (Returned None, w)"
  shows "handler P distFolder opts request s =
     (Returned (Response \<lparr>body = ''No routes manifest found'', status = 404,
                          headers = [(''Content-Type'', ''text/plain'')]\<rparr>),
      request,
      s\<lparr>world := w, calls := calls s @ [CallGetInternalRoutesManifest distFolder]\<rparr>)"
  using assms by (simp add: handler_def acquireManifest_def invoke_def plainText_def)

theorem supplier_null_witness:
  "handler exPlatform ''dist'' exUnconfigured (exRequest ''GET'' ''http://expo.dev/'') exCached =
     (Returned (Response \<lparr>body = ''No routes manifest found'', status = 404,
                          headers = [(''Content-Type'', ''text/plain'')]\<rparr>),
      exRequest ''GET'' ''http://expo.dev/'',
      \<lparr>routesManifest = Some exManifest, world = 8,
        calls = [CallGetInternalRoutesManifest ''dist'']\<rparr>)"
  using supplier_null [of exUnconfigured "\<lambda>d w. (Returned None, Suc w)" "''dist''" exCached 8
      exPlatform "exRequest ''GET'' ''http://expo.dev/''"]
  by (simp add: exUnconfigured_def exCached_def)

subsection \<open>C10: empty contents\<close>

text \<open>
  C10. For a \<^verbatim>\<open>GET\<close> or \<^verbatim>\<open>HEAD\<close> request served from a descriptor of \<^verbatim>\<open>htmlRoutes\<close>,
  or of \<^verbatim>\<open>notFoundRoutes\<close> when no descriptor of \<^verbatim>\<open>htmlRoutes\<close> or \<^verbatim>\<open>apiRoutes\<close>
  matches, for which \<open>getHtml\<close> resolves to the empty string, the handler returns the
  plain-text response \<^verbatim>\<open>Not found\<close> of status 404, the one it returns when \<open>getHtml\<close>
  resolves to \<^verbatim>\<open>null\<close>: the empty string is not served as an empty page.
\<close>

theorem empty_html_not_found:
  assumes "acquireManifest P distFolder opts s = (Inr manifest, s')"
    and "method' request = ''GET'' \<or> method' request = ''HEAD''"
    and "newURL P (url request) ''http://expo.dev'' = Some u"
    and "find (\<lambda>r. test (namedRegex r) (pathname u)) (htmlRoutes manifest) = Some route
         \<or> (find (\<lambda>r. test (namedRegex r) (pathname u)) (htmlRoutes manifest) = None
            \<and> find (\<lambda>r. test (namedRegex r) (pathname u)) (apiRoutes manifest) = None
            \<and> find (\<lambda>r. test (namedRegex r) (pathname u)) (notFoundRoutes manifest) = Some route)"
    and "updateRequestWithConfig P request route = Returned (ps, request')"
    and "getHtml opts request' route (world s') = (Returned cs, w)"
    and "cs = Html [] \<or> cs = Null"
  shows "fst (handler P distFolder opts request s) =
     Returned (Response \<lparr>body = ''Not found'', status = 404,
                         headers = [(''Content-Type'', ''text/plain'')]\<rparr>)"
  using assms
  by (auto simp add: handler_acquired dispatch_def loops_find serveContents_def invoke_def
      plainText_def)

theorem empty_html_not_found_witness:
  "fst (handler exPlatform ''dist'' exOptions (exRequest ''GET'' ''http://expo.dev/empty'') exStart) =
     Returned (Response \<lparr>body = ''Not found'', status = 404,
                         headers = [(''Content-Type'', ''text/plain'')]\<rparr>)
   \<and> fst (handler exPlatform ''dist'' (exOptions\<lparr>getHtml := \<lambda>req route w. (Returned (Html []), Suc w)\<rparr>)
          (exRequest ''HEAD'' ''http://expo.dev/nowhere'') exStart) =
     Returned (Response \<lparr>body = ''Not found'', status = 404,
                         headers = [(''Content-Type'', ''text/plain'')]\<rparr>)"
proof
  show "fst (handler exPlatform ''dist'' exOptions (exRequest ''GET'' ''http://expo.dev/empty'') exStart) =
     Returned (Response \<lparr>body = ''Not found'', status = 404,
                         headers = [(''Content-Type'', ''text/plain'')]\<rparr>)"
    by (rule empty_html_not_found [where manifest = exManifest and route = emptyRoute
          and s' = "\<lparr>routesManifest = Some exManifest, world = 1,
                      calls = [CallGetRoutesManifest ''dist'']\<rparr>"
          and u = "\<lparr>pathname = ''/empty'', searchParams = []\<rparr>" and ps = Map.empty
          and request' = "\<lparr>method' = ''GET'', url = ''http://expo.dev/empty'',
                            nonStandard = Some \<lparr>pathname = ''/empty'', searchParams = []\<rparr>\<rparr>"
          and w = 2 and cs = "Html []"])
      (simp_all add: ex_defs model_defs)
  show "fst (handler exPlatform ''dist'' (exOptions\<lparr>getHtml := \<lambda>req route w. (Returned (Html []), Suc w)\<rparr>)
          (exRequest ''HEAD'' ''http://expo.dev/nowhere'') exStart) =
     Returned (Response \<lparr>body = ''Not found'', status = 404,
                         headers = [(''Content-Type'', ''text/plain'')]\<rparr>)"
    by (rule empty_html_not_found [where manifest = exManifest and route = notFoundRoute
          and s' = "\<lparr>routesManifest = Some exManifest, world = 1,
                      calls = [CallGetRoutesManifest ''dist'']\<rparr>"
          and u = "\<lparr>pathname = ''/nowhere'', searchParams = []\<rparr>"
          and ps = "[''not-found'' \<mapsto> Captured ''nowhere'']"
          and request' = "\<lparr>method' = ''HEAD'', url = ''http://expo.dev/nowhere'',
                            nonStandard = Some \<lparr>pathname = ''/nowhere'',
                              searchParams = [(''not-found'', ''nowhere'')]\<rparr>\<rparr>"
          and w = 2 and cs = "Html []"])
      (simp_all add: ex_defs model_defs)
qed

subsection \<open>C2: an API route whose resolver yields nothing\<close>

text \<open>
  C2, as claimed: when the path matches a descriptor of \<^verbatim>\<open>apiRoutes\<close> and
  \<open>getApiRoute\<close> resolves to \<^verbatim>\<open>null\<close>, the response has status 404. It does not: the
  handler reads the method through \<^verbatim>\<open>func?.[request.method]\<close>, finds no handler and answers
  405. The example has the descriptor \<open>goneRoute\<close>, whose module is missing.
\<close>

theorem api_null_counterexample:
  "find (\<lambda>r. test (namedRegex r) ''/gone'') (apiRoutes exManifest) = Some goneRoute
   \<and> fst (getApiRoute exOptions goneRoute 1) = Returned Nullish
   \<and> (\<exists>r. fst (handler exPlatform ''dist'' exOptions (exRequest ''POST'' ''http://expo.dev/gone'')
               exStart) = Returned (Response r)
          \<and> status r = 405 \<and> status r \<noteq> 404)"
  by (simp add: ex_defs model_defs)

text \<open>
  C2, amended. When the scan of \<^verbatim>\<open>apiRoutes\<close> is reached (the method is neither \<^verbatim>\<open>GET\<close>
  nor \<^verbatim>\<open>HEAD\<close>, or no descriptor of \<^verbatim>\<open>htmlRoutes\<close> matches) and \<open>getApiRoute\<close>
  resolves to \<^verbatim>\<open>null\<close> for the first descriptor of \<^verbatim>\<open>apiRoutes\<close> that matches, the handler
  returns the plain-text response \<^verbatim>\<open>Method not allowed\<close> of status 405.
\<close>

theorem api_null_405:
  assumes "acquireManifest P distFolder opts s = (Inr manifest, s')"
    and "newURL P (url request) ''http://expo.dev'' = Some u"
    and "(method' request \<noteq> ''GET'' \<and> method' request \<noteq> ''HEAD'')
         \<or> find (\<lambda>r. test (namedRegex r) (pathname u)) (htmlRoutes manifest) = None"
    and "find (\<lambda>r. test (namedRegex r) (pathname u)) (apiRoutes manifest) = Some route"
    and "getApiRoute opts route (world s') = (Returned Nullish, w)"
  shows "fst (handler P distFolder opts request s) =
     Returned (Response \<lparr>body = ''Method not allowed'', status = 405,
                         headers = [(''Content-Type'', ''text/plain'')]\<rparr>)"
  using assms
  by (auto simp add: handler_acquired dispatch_def loops_find serveApi_def invoke_def
      plainText_def)

theorem api_null_405_witness:
  "fst (handler exPlatform ''dist'' exOptions (exRequest ''GET'' ''http://expo.dev/gone'') exStart) =
     Returned (Response \<lparr>body = ''Method not allowed'', status = 405,
                         headers = [(''Content-Type'', ''text/plain'')]\<rparr>)"
  by (rule api_null_405 [where manifest = exManifest and route = goneRoute
        and s' = "\<lparr>routesManifest = Some exManifest, world = 1,
                    calls = [CallGetRoutesManifest ''dist'']\<rparr>"
        and u = "\<lparr>pathname = ''/gone'', searchParams = []\<rparr>" and w = 2])
    (simp_all add: ex_defs model_defs)

subsection \<open>C3: a route handler that raises\<close>

text \<open>
  C3, as claimed: when the matched route handler raises, the error-reporting hook is invoked
  exactly once with what was raised. It is not when the handler throws a value that is not an
  instance of \<^verbatim>\<open>Error\<close>: the \<^verbatim>\<open>catch\<close> block guards the hook with
  \<^verbatim>\<open>error instanceof Error\<close>. In the example the \<^verbatim>\<open>PUT\<close> handler of the users route throws
  a string; the response is the 500 one and the hook is never invoked.
\<close>

theorem handler_raises_counterexample:
  "(case usersModule ''PUT'' of
      Function f \<Rightarrow> fst (f (exRequest ''PUT'' ''http://expo.dev/users/42'') Map.empty 2)
    | _ \<Rightarrow> Returned NotAResponse) = Thrown (OtherThrown ''read only'')
   \<and> fst (handler exPlatform ''dist'' exOptions (exRequest ''PUT'' ''http://expo.dev/users/42'') exStart) =
       Returned (Response \<lparr>body = ''Internal server error'', status = 500,
                           headers = [(''Content-Type'', ''text/plain'')]\<rparr>)
   \<and> (\<forall>e. CallLogApiRouteExecutionError e \<notin> set (calls (snd (snd
         (handler exPlatform ''dist'' exOptions (exRequest ''PUT'' ''http://expo.dev/users/42'') exStart)))))"
  by (simp add: ex_defs model_defs)

text \<open>
  C3, amended. When the route handler of the first matching descriptor of \<^verbatim>\<open>apiRoutes\<close>
  raises: the hook is invoked exactly once, with the raised value, if that value is an
  instance of \<^verbatim>\<open>Error\<close>, and not at all otherwise; and, the hook returning, the handler
  returns exactly the plain-text response \<^verbatim>\<open>Internal server error\<close> of status 500, whose
  body is that fixed text whatever was raised. The calls of the handler after it obtained the
  manifest are listed in full: the resolver, the route handler, and the hook in the first case.
\<close>

theorem handler_raises_500:
  assumes "acquireManifest P distFolder opts s = (Inr manifest, s')"
    and "newURL P (url request) ''http://expo.dev'' = Some u"
    and "(method' request \<noteq> ''GET'' \<and> method' request \<noteq> ''HEAD'')
         \<or> find (\<lambda>r. test (namedRegex r) (pathname u)) (htmlRoutes manifest) = None"
    and "find (\<lambda>r. test (namedRegex r) (pathname u)) (apiRoutes manifest) = Some route"
    and "getApiRoute opts route (world s') = (Returned (Module exports), w)"
    and "exports (method' request) = Function f"
    and "updateRequestWithConfig P request route = Returned (ps, request')"
    and "f request' ps w = (Thrown err, w')"
    and "\<forall>msg. err = ErrorInstance msg \<longrightarrow>
           fst (logApiRouteExecutionError opts err w') = Returned ()"
  shows "\<exists>t. handler P distFolder opts request s =
            (Returned (Response \<lparr>body = ''Internal server error'', status = 500,
                                 headers = [(''Content-Type'', ''text/plain'')]\<rparr>),
             request', t)
          \<and> calls t = calls s' @ [CallGetApiRoute route, CallRouteHandler route request' ps]
               @ (case err of ErrorInstance msg \<Rightarrow> [CallLogApiRouteExecutionError err]
                  | OtherThrown x \<Rightarrow> [])"
  using assms
  by (cases err; cases "logApiRouteExecutionError opts err w'")
    (auto simp add: handler_acquired dispatch_def loops_find serveApi_def catchBlock_def invoke_def
      plainText_def)

theorem handler_raises_500_witness:
  "\<exists>t. handler exPlatform ''dist'' exOptions (exRequest ''DELETE'' ''http://expo.dev/users/42'') exStart =
         (Returned (Response \<lparr>body = ''Internal server error'', status = 500,
                              headers = [(''Content-Type'', ''text/plain'')]\<rparr>),
          \<lparr>method' = ''DELETE'', url = ''http://expo.dev/users/42'',
            nonStandard = Some \<lparr>pathname = ''/users/42'', searchParams = [(''id'', ''42'')]\<rparr>\<rparr>, t)
       \<and> calls t =
           [CallGetRoutesManifest ''dist'', CallGetApiRoute usersRoute,
            CallRouteHandler usersRoute
              \<lparr>method' = ''DELETE'', url = ''http://expo.dev/users/42'',
                nonStandard = Some \<lparr>pathname = ''/users/42'', searchParams = [(''id'', ''42'')]\<rparr>\<rparr>
              [''id'' \<mapsto> Captured ''42''],
            CallLogApiRouteExecutionError (ErrorInstance ''no such user'')]"
  using handler_raises_500 [where P = exPlatform and distFolder = "''dist''" and opts = exOptions
        and request = "exRequest ''DELETE'' ''http://expo.dev/users/42''" and s = exStart
        and manifest = exManifest and route = usersRoute
        and s' = "\<lparr>routesManifest = Some exManifest, world = 1,
                    calls = [CallGetRoutesManifest ''dist'']\<rparr>"
        and u = "\<lparr>pathname = ''/users/42'', searchParams = []\<rparr>"
        and exports = usersModule and w = 2
        and f = "\<lambda>req ps w. (Thrown (ErrorInstance ''no such user''), Suc w)"
        and ps = "[''id'' \<mapsto> Captured ''42'']"
        and request' = "\<lparr>method' = ''DELETE'', url = ''http://expo.dev/users/42'',
             nonStandard = Some \<lparr>pathname = ''/users/42'', searchParams = [(''id'', ''42'')]\<rparr>\<rparr>"
        and err = "ErrorInstance ''no such user''" and w' = 3]
  by (simp add: ex_defs model_defs)

subsection \<open>C1: every call yields a response\<close>
















subsection \<open>C5: the parameters of a matched descriptor\<close>

text \<open>
  What \<^verbatim>\<open>URLSearchParams.set\<close> leaves under the name it sets and under the other names,
  and what the loop of \<open>updateRequestWithConfig\<close> computes: under each name, the value of the
  last group of that name in the order of the entries.
\<close>

lemma getAll_set_same: "getAll name (searchParams_set name v qs) = [v]"
  by (induction qs) (auto simp: getAll_def filter_empty_conv)

lemma filter_other_name:
  "m \<noteq> name \<Longrightarrow>
     filter (\<lambda>x. (case x of (k', x') \<Rightarrow> k' \<noteq> name) \<and> (case x of (k, x) \<Rightarrow> k = m)) qs =
     filter (\<lambda>(k, x). k = m) qs"
  by (rule filter_cong) auto

lemma getAll_set_other: "m \<noteq> name \<Longrightarrow> getAll m (searchParams_set name v qs) = getAll m qs"
  by (induction qs) (auto simp: getAll_def filter_other_name)

lemma assignGroups_pathname:
  "assignGroups P rk gs (u, ps) = (u', ps') \<Longrightarrow> pathname u' = pathname u"
  by (induction gs arbitrary: u ps) (auto simp: Let_def)

lemma assignGroups_proto:
  "assignGroups P rk gs (u, ps) = (u', ps') \<Longrightarrow> ps' ''__proto__'' = ps ''__proto__''"
proof (induction gs arbitrary: u ps)
  case Nil
  then show ?case by simp
next
  case (Cons g gs)
  obtain k v where g: "g = (k, v)" by (cases g)
  let ?u1 = "u\<lparr>searchParams := searchParams_set (namedKeyOf P rk k) (toUSVString v) (searchParams u)\<rparr>"
  from Cons.prems
  have "assignGroups P rk gs (?u1, assignProperty ps (namedKeyOf P rk k) v) = (u', ps')"
    by (simp add: g Let_def)
  from Cons.IH [OF this] show ?case
    by (simp add: assignProperty_def)
qed

lemma assignGroups_params:
  "assignGroups P rk gs (u, ps) = (u', ps') \<Longrightarrow> name \<noteq> ''__proto__'' \<Longrightarrow>
     ps' name =
       (case map_of (rev (map (\<lambda>(k, v). (namedKeyOf P rk k, v)) gs)) name of
          None \<Rightarrow> ps name
        | Some v \<Rightarrow> Some v)"
proof (induction gs arbitrary: u ps)
  case Nil
  then show ?case by simp
next
  case (Cons g gs)
  obtain k v where g: "g = (k, v)" by (cases g)
  let ?u1 = "u\<lparr>searchParams := searchParams_set (namedKeyOf P rk k) (toUSVString v) (searchParams u)\<rparr>"
  from Cons.prems(1)
  have "assignGroups P rk gs (?u1, assignProperty ps (namedKeyOf P rk k) v) = (u', ps')"
    by (simp add: g Let_def)
  from Cons.IH [OF this Cons.prems(2)] Cons.prems(2) show ?case
    by (auto simp: g assignProperty_def split: option.splits)
qed

lemma assignGroups_query:
  "assignGroups P rk gs (u, ps) = (u', ps') \<Longrightarrow>
     getAll name (searchParams u') =
       (case map_of (rev (map (\<lambda>(k, v). (namedKeyOf P rk k, v)) gs)) name of
          None \<Rightarrow> getAll name (searchParams u)
        | Some v \<Rightarrow> [toUSVString v])"
proof (induction gs arbitrary: u ps)
  case Nil
  then show ?case by simp
next
  case (Cons g gs)
  obtain k v where g: "g = (k, v)" by (cases g)
  let ?u1 = "u\<lparr>searchParams := searchParams_set (namedKeyOf P rk k) (toUSVString v) (searchParams u)\<rparr>"
  from Cons.prems
  have "assignGroups P rk gs (?u1, assignProperty ps (namedKeyOf P rk k) v) = (u', ps')"
    by (simp add: g Let_def)
  from Cons.IH [OF this] show ?case
    by (auto simp: g getAll_set_same getAll_set_other split: option.splits)
qed

lemma map_of_rev_last:
  "i < length xs \<Longrightarrow> xs ! i = (n, x) \<Longrightarrow>
     \<forall>j. i < j \<longrightarrow> j < length xs \<longrightarrow> fst (xs ! j) \<noteq> n \<Longrightarrow>
     map_of (rev xs) n = Some x"
proof (induction xs arbitrary: i)
  case Nil
  then show ?case by simp
next
  case (Cons a xs)
  show ?case
  proof (cases i)
    case 0
    have "n \<notin> fst ` set xs"
    proof
      assume "n \<in> fst ` set xs"
      then obtain j where "j < length xs" and "fst (xs ! j) = n"
        by (auto simp add: in_set_conv_nth)
      with Cons.prems(3) [rule_format, of "Suc j"] 0 show False by simp
    qed
    then have "map_of (rev xs) n = None"
      by (simp add: map_of_eq_None_iff)
    with Cons.prems(2) 0 show ?thesis
      by (simp add: map_add_def)
  next
    case (Suc i')
    have "map_of (rev xs) n = Some x"
    proof (rule Cons.IH)
      from Cons.prems(1) Suc show "i' < length xs" by simp
      from Cons.prems(2) Suc show "xs ! i' = (n, x)" by simp
      show "\<forall>j. i' < j \<longrightarrow> j < length xs \<longrightarrow> fst (xs ! j) \<noteq> n"
        using Cons.prems(3) [rule_format, of "Suc j" for j] Suc by auto
    qed
    then show ?thesis
      by (simp add: map_add_def)
  qed
qed

text \<open>
  C5, as claimed: the parameters returned for a matched descriptor whose pattern yields named
  captures map each public name of \<^verbatim>\<open>routeKeys\<close> to its captured substring, and the query
  parameters of the request hold the same pairs. Three inputs show where they do not.
  \<^item> A named group that took no part in the match: the loop runs over every entry of
    \<^verbatim>\<open>match.groups\<close>, and the value of such a group is \<^verbatim>\<open>undefined\<close>. The path
    \<^verbatim>\<open>/en/blog\<close> matches the descriptor \<^verbatim>\<open>/[lang]/blog/[[...slug]]\<close> and yields the
    capture \<^verbatim>\<open>en\<close> for \<^verbatim>\<open>lang\<close> and none for \<^verbatim>\<open>slug\<close>; yet the parameters bind
    \<^verbatim>\<open>slug\<close> as well (to \<^verbatim>\<open>undefined\<close>), and the query parameters hold
    \<^verbatim>\<open>slug=undefined\<close>, a pair that the parameters do not hold and whose value is no
    substring of the path.
  \<^item> Two groups of the same public name: both capture, and the parameters and the query
    parameters hold the capture of the later group only.
  \<^item> The public name \<^verbatim>\<open>__proto__\<close>: the query parameters hold the capture, the parameters
    hold nothing.
\<close>

theorem params_of_captures_counterexample:
  "exec (namedRegex langBlogRoute) ''/en/blog'' =
     Match (Some [(''lang'', Captured ''en''), (''slug'', Undefined)])
   \<and> routeKeys langBlogRoute ''lang'' = Some ''lang''
   \<and> routeKeys langBlogRoute ''slug'' = Some ''slug''
   \<and> updateRequestWithConfig exPlatform (exRequest ''GET'' ''http://expo.dev/en/blog'') langBlogRoute =
       Returned ([''lang'' \<mapsto> Captured ''en'', ''slug'' \<mapsto> Undefined],
         \<lparr>method' = ''GET'', url = ''http://expo.dev/en/blog'',
           nonStandard = Some \<lparr>pathname = ''/en/blog'',
             searchParams = [(''lang'', ''en''), (''slug'', ''undefined'')]\<rparr>\<rparr>)
   \<and> exec (namedRegex pairRoute) ''/pair/1/2'' =
       Match (Some [(''a'', Captured ''1''), (''b'', Captured ''2'')])
   \<and> routeKeys pairRoute ''a'' = Some ''id'' \<and> routeKeys pairRoute ''b'' = Some ''id''
   \<and> updateRequestWithConfig exPlatform (exRequest ''GET'' ''http://expo.dev/pair/1/2'') pairRoute =
       Returned ([''id'' \<mapsto> Captured ''2''],
         \<lparr>method' = ''GET'', url = ''http://expo.dev/pair/1/2'',
           nonStandard = Some \<lparr>pathname = ''/pair/1/2'', searchParams = [(''id'', ''2'')]\<rparr>\<rparr>)
   \<and> exec (namedRegex protoRoute) ''/users/42'' = Match (Some [(''id'', Captured ''42'')])
   \<and> routeKeys protoRoute ''id'' = Some ''__proto__''
   \<and> updateRequestWithConfig exPlatform (exRequest ''GET'' ''http://expo.dev/users/42'') protoRoute =
       Returned (Map.empty,
         \<lparr>method' = ''GET'', url = ''http://expo.dev/users/42'',
           nonStandard = Some \<lparr>pathname = ''/users/42'',
             searchParams = [(''__proto__'', ''42'')]\<rparr>\<rparr>)"
  by (simp add: langBlogRegex_def langBlogRoute_def pairRegex_def pairRoute_def protoRoute_def
      ex_defs model_defs)

text \<open>
  C5, amended. Let the URL of the request parse and the pattern of the descriptor match its
  path with named groups, every group having an entry in \<^verbatim>\<open>routeKeys\<close>. Then
  \<open>updateRequestWithConfig\<close> returns and changes the request only in its slot for the parsed
  URL. For every group that captured a substring (where several groups have the same public
  name, the last of them in the order of the entries): the query parameters of the request
  hold exactly that substring under the public name of the group, whatever they held under
  it before, and the parameters map the public name to that substring, unless the public
  name is \<^verbatim>\<open>__proto__\<close>. Under a name that is the public name of no group, the parameters
  hold nothing and the query parameters are as they were. (Nothing is said of a group that
  captured nothing, nor of the parameters under the name \<^verbatim>\<open>__proto__\<close>.)
\<close>

theorem params_of_captures:
  assumes parsed: "newExpoURL P (url request) = Some u"
    and matched: "exec (namedRegex config) (pathname u) = Match (Some gs)"
    and keyed: "\<forall>k\<in>fst ` set gs. routeKeys config k \<noteq> None"
  shows "\<exists>ps u'. updateRequestWithConfig P request config =
                    Returned (ps, request\<lparr>nonStandard := Some u'\<rparr>)
          \<and> pathname u' = pathname u
          \<and> (\<forall>i k v name. i < length gs \<longrightarrow> gs ! i = (k, Captured v) \<longrightarrow>
                routeKeys config k = Some name \<longrightarrow>
                (\<forall>j. i < j \<longrightarrow> j < length gs \<longrightarrow> routeKeys config (fst (gs ! j)) \<noteq> Some name) \<longrightarrow>
                getAll name (searchParams u') = [v]
                \<and> (name \<noteq> ''__proto__'' \<longrightarrow> ps name = Some (Captured v)))
          \<and> (\<forall>name. (\<forall>k\<in>fst ` set gs. routeKeys config k \<noteq> Some name) \<longrightarrow>
                ps name = None \<and> getAll name (searchParams u') = getAll name (searchParams u))"
proof -
  let ?rk = "routeKeys config"
  let ?pairs = "map (\<lambda>(k, v). (namedKeyOf P ?rk k, v)) gs"
  obtain u' ps where run: "assignGroups P ?rk gs (u, Map.empty) = (u', ps)"
    by (cases "assignGroups P ?rk gs (u, Map.empty)")
  have named: "namedKeyOf P ?rk k = name \<longleftrightarrow> ?rk k = Some name" if "k \<in> fst ` set gs" for k name
    using keyed that by (auto simp add: namedKeyOf_def split: option.splits)
  have params: "ps name = (case map_of (rev ?pairs) name of None \<Rightarrow> None | Some v \<Rightarrow> Some v)"
    if "name \<noteq> ''__proto__''" for name
    using assignGroups_params [OF run that] by simp
  have proto: "ps ''__proto__'' = None"
    using assignGroups_proto [OF run] by simp
  have query: "getAll name (searchParams u') =
       (case map_of (rev ?pairs) name of None \<Rightarrow> getAll name (searchParams u)
        | Some v \<Rightarrow> [toUSVString v])" for name
    by (rule assignGroups_query [OF run])
  have hit: "map_of (rev ?pairs) name = Some (Captured v)"
    if i: "i < length gs" and at: "gs ! i = (k, Captured v)" and name: "?rk k = Some name"
      and last: "\<forall>j. i < j \<longrightarrow> j < length gs \<longrightarrow> ?rk (fst (gs ! j)) \<noteq> Some name"
    for i k v name
  proof (rule map_of_rev_last [where i = i])
    from i show "i < length ?pairs" by simp
    from i at have "k \<in> fst ` set gs" by (force simp add: in_set_conv_nth)
    with name have "namedKeyOf P ?rk k = name" by (simp add: named)
    with i at show "?pairs ! i = (name, Captured v)" by simp
    show "\<forall>j. i < j \<longrightarrow> j < length ?pairs \<longrightarrow> fst (?pairs ! j) \<noteq> name"
    proof (intro allI impI)
      fix j assume "i < j" and j: "j < length ?pairs"
      with last have differs: "?rk (fst (gs ! j)) \<noteq> Some name" by simp
      from j have "fst (gs ! j) \<in> fst ` set gs" by simp
      with differs have "namedKeyOf P ?rk (fst (gs ! j)) \<noteq> name" by (simp add: named)
      with j show "fst (?pairs ! j) \<noteq> name" by (simp add: case_prod_beta)
    qed
  qed
  have miss: "map_of (rev ?pairs) name = None"
    if "\<forall>k\<in>fst ` set gs. ?rk k \<noteq> Some name" for name
  proof -
    have "name \<notin> fst ` set (rev ?pairs)"
    proof
      assume "name \<in> fst ` set (rev ?pairs)"
      then obtain k v where kv: "(k, v) \<in> set gs" and nk: "namedKeyOf P ?rk k = name" by auto
      from kv have k: "k \<in> fst ` set gs" by force
      with nk have "?rk k = Some name" by (simp add: named)
      with that k show False by blast
    qed
    then show ?thesis by (simp add: map_of_eq_None_iff)
  qed
  have "updateRequestWithConfig P request config = Returned (ps, request\<lparr>nonStandard := Some u'\<rparr>)"
    by (simp add: updateRequestWithConfig_def parsed matched run)
  moreover have "pathname u' = pathname u"
    by (rule assignGroups_pathname [OF run])
  moreover have "getAll name (searchParams u') = [v]
      \<and> (name \<noteq> ''__proto__'' \<longrightarrow> ps name = Some (Captured v))"
    if "i < length gs" and "gs ! i = (k, Captured v)" and "?rk k = Some name"
      and "\<forall>j. i < j \<longrightarrow> j < length gs \<longrightarrow> ?rk (fst (gs ! j)) \<noteq> Some name"
    for i k v name
    using hit [OF that] by (simp add: params query toUSVString_def)
  moreover have "ps name = None \<and> getAll name (searchParams u') = getAll name (searchParams u)"
    if "\<forall>k\<in>fst ` set gs. ?rk k \<noteq> Some name" for name
    using miss [OF that] proto by (cases "name = ''__proto__''") (simp_all add: params query)
  ultimately show ?thesis by blast
qed

theorem params_of_captures_witness:
  "\<exists>ps u'. updateRequestWithConfig exQueryPlatform
              (exRequest ''GET'' ''http://expo.dev/en/blog/a/b?slug=x&page=2&slug=y'') langBlogRoute =
              Returned (ps, (exRequest ''GET'' ''http://expo.dev/en/blog/a/b?slug=x&page=2&slug=y'')
                             \<lparr>nonStandard := Some u'\<rparr>)
      \<and> pathname u' = ''/en/blog/a/b''
      \<and> getAll ''slug'' [(''slug'', ''x''), (''page'', ''2''), (''slug'', ''y'')] = [''x'', ''y'']
      \<and> ps ''slug'' = Some (Captured ''a/b'') \<and> getAll ''slug'' (searchParams u') = [''a/b'']
      \<and> ps ''lang'' = Some (Captured ''en'') \<and> getAll ''lang'' (searchParams u') = [''en'']
      \<and> ps ''page'' = None \<and> getAll ''page'' (searchParams u') = [''2'']"
proof -
  let ?req = "exRequest ''GET'' ''http://expo.dev/en/blog/a/b?slug=x&page=2&slug=y''"
  let ?u = "\<lparr>pathname = ''/en/blog/a/b'',
             searchParams = [(''slug'', ''x''), (''page'', ''2''), (''slug'', ''y'')]\<rparr>"
  let ?gs = "[(''lang'', Captured ''en''), (''slug'', Captured ''a/b'')]"
  have p1: "newExpoURL exQueryPlatform (url ?req) = Some ?u"
    by (simp add: exQueryPlatform_def exParseQuery_def exRequest_def)
  have p2: "exec (namedRegex langBlogRoute) (pathname ?u) = Match (Some ?gs)"
    by (simp add: langBlogRoute_def langBlogRegex_def exec_def)
  have p3: "\<forall>k\<in>fst ` set ?gs. routeKeys langBlogRoute k \<noteq> None"
    by (simp add: langBlogRoute_def)
  from params_of_captures [OF p1 p2 p3]
  obtain ps u' where r: "updateRequestWithConfig exQueryPlatform ?req langBlogRoute =
        Returned (ps, ?req\<lparr>nonStandard := Some u'\<rparr>)"
    and pa: "pathname u' = pathname ?u"
    and a: "\<And>i k v name. i < length ?gs \<Longrightarrow> ?gs ! i = (k, Captured v) \<Longrightarrow>
          routeKeys langBlogRoute k = Some name \<Longrightarrow>
          \<forall>j. i < j \<longrightarrow> j < length ?gs \<longrightarrow> routeKeys langBlogRoute (fst (?gs ! j)) \<noteq> Some name \<Longrightarrow>
          getAll name (searchParams u') = [v]
          \<and> (name \<noteq> ''__proto__'' \<longrightarrow> ps name = Some (Captured v))"
    and b: "\<And>name. \<forall>k\<in>fst ` set ?gs. routeKeys langBlogRoute k \<noteq> Some name \<Longrightarrow>
          ps name = None \<and> getAll name (searchParams u') = getAll name (searchParams ?u)"
    by blast
  have later: "j = 1" if "0 < j" and "j < length ?gs" for j :: nat
    using that by simp
  from a [of 0 "''lang''" "''en''" "''lang''"]
  have "ps ''lang'' = Some (Captured ''en'') \<and> getAll ''lang'' (searchParams u') = [''en'']"
    by (auto simp add: langBlogRoute_def dest: later)
  moreover from a [of 1 "''slug''" "''a/b''" "''slug''"]
  have "ps ''slug'' = Some (Captured ''a/b'') \<and> getAll ''slug'' (searchParams u') = [''a/b'']"
    by (simp add: langBlogRoute_def)
  moreover from b [of "''page''"]
  have "ps ''page'' = None \<and> getAll ''page'' (searchParams u') = [''2'']"
    by (simp add: langBlogRoute_def getAll_def)
  moreover have "getAll ''slug'' [(''slug'', ''x''), (''page'', ''2''), (''slug'', ''y'')] = [''x'', ''y'']"
    by (simp add: getAll_def)
  ultimately show ?thesis
    using r pa by auto
qed

subsection \<open>C4: the first matching descriptor wins\<close>

text \<open>
  The calls that serving a descriptor records: the call of \<open>getHtml\<close> for that descriptor,
  or the call of \<open>getApiRoute\<close> for it followed by calls that name no other descriptor.
\<close>

lemma find_first:
  "\<forall>r\<in>set pre. \<not> Q r \<Longrightarrow> Q x \<Longrightarrow> find Q (pre @ x # rest) = Some x"
  by (induction pre) simp_all

lemma catchBlock_calls:
  "\<exists>cs. calls (snd (catchBlock opts e s)) = calls s @ cs \<and> (\<forall>c\<in>set cs. routeOf c = None)"
  by (cases e; cases "logApiRouteExecutionError opts e (world s)";
      cases "fst (logApiRouteExecutionError opts e (world s))")
    (auto simp add: catchBlock_def invoke_def)

lemma serveContents_calls:
  "updateRequestWithConfig P request route = Returned (ps, request') \<Longrightarrow>
     calls (snd (snd (serveContents P opts st route request s))) =
       calls s @ [CallGetHtml request' route]"
  by (auto simp add: serveContents_def invoke_def split: outcome.splits prod.splits contents.splits)

lemma serveApi_calls:
  "\<exists>cs. calls (snd (snd (serveApi P opts route request s))) = calls s @ CallGetApiRoute route # cs
        \<and> (\<forall>c\<in>set cs. \<forall>r. routeOf c = Some r \<longrightarrow> r = route)"
proof -
  have cb: "\<exists>cs. calls (snd (catchBlock opts e t)) = calls s @ CallGetApiRoute route # cs
        \<and> (\<forall>c\<in>set cs. \<forall>r. routeOf c = Some r \<longrightarrow> r = route)"
    if "calls t = calls s @ CallGetApiRoute route # ds"
      and "\<forall>c\<in>set ds. \<forall>r. routeOf c = Some r \<longrightarrow> r = route" for e t ds
  proof -
    from catchBlock_calls [of opts e t] obtain cs where
      "calls (snd (catchBlock opts e t)) = calls t @ cs" and "\<forall>c\<in>set cs. routeOf c = None"
      by blast
    with that have "calls (snd (catchBlock opts e t)) = calls s @ CallGetApiRoute route # (ds @ cs)
        \<and> (\<forall>c\<in>set (ds @ cs). \<forall>r. routeOf c = Some r \<longrightarrow> r = route)"
      by auto
    then show ?thesis by blast
  qed
  obtain a w where api: "getApiRoute opts route (world s) = (a, w)"
    by (cases "getApiRoute opts route (world s)")
  let ?s1 = "s\<lparr>world := w, calls := calls s @ [CallGetApiRoute route]\<rparr>"
  have cb1: "\<exists>cs. calls (snd (catchBlock opts e ?s1)) = calls s @ CallGetApiRoute route # cs
        \<and> (\<forall>c\<in>set cs. \<forall>r. routeOf c = Some r \<longrightarrow> r = route)" for e
    by (rule cb [where ds = "[]"]) simp_all
  have cb2: "\<exists>cs. calls (snd (catchBlock opts e
          (?s1\<lparr>world := w', calls := calls ?s1 @ [CallRouteHandler route request' ps]\<rparr>))) =
            calls s @ CallGetApiRoute route # cs
        \<and> (\<forall>c\<in>set cs. \<forall>r. routeOf c = Some r \<longrightarrow> r = route)" for e w' request' ps
    by (rule cb [where ds = "[CallRouteHandler route request' ps]"]) simp_all
  show ?thesis
    using cb1 cb2
    by (auto simp add: serveApi_def invoke_def api case_prod_unfold
        split: outcome.splits api_route.splits export.splits)
qed

text \<open>
  C4. Let two descriptors of a same category of the manifest match the path of the request,
  the one declared earlier being the first of its list that matches. Then, in each of the
  three categories, when the handler comes to scan the category (\<^verbatim>\<open>htmlRoutes\<close> for
  \<^verbatim>\<open>GET\<close> and \<^verbatim>\<open>HEAD\<close>; \<^verbatim>\<open>apiRoutes\<close> when the scan of \<^verbatim>\<open>htmlRoutes\<close> returned
  nothing; \<^verbatim>\<open>notFoundRoutes\<close> when no descriptor of \<^verbatim>\<open>apiRoutes\<close> matches either), the
  result of the handler is the result of serving the earlier descriptor, and the resolver is
  invoked for the earlier descriptor: for the HTML and not-found routes the one call recorded
  is that of \<open>getHtml\<close> for the earlier descriptor; for the API routes the first call
  recorded is that of \<open>getApiRoute\<close> for the earlier descriptor, and every later call that
  names a descriptor (that of the route handler) names the earlier one. So no resolver and no
  handler is invoked for the later descriptor.
\<close>

theorem first_match_wins:
  assumes "acquireManifest P distFolder opts s = (Inr manifest, s')"
    and "newURL P (url request) ''http://expo.dev'' = Some u"
    and "\<forall>r\<in>set pre. \<not> test (namedRegex r) (pathname u)"
    and "test (namedRegex earlier) (pathname u)"
    and "test (namedRegex later) (pathname u)"
  shows "(htmlRoutes manifest = pre @ earlier # mid @ later # post \<longrightarrow>
            method' request = ''GET'' \<or> method' request = ''HEAD'' \<longrightarrow>
            handler P distFolder opts request s = serveContents P opts 200 earlier request s'
            \<and> (\<forall>ps request'. updateRequestWithConfig P request earlier = Returned (ps, request') \<longrightarrow>
                 calls (snd (snd (handler P distFolder opts request s))) =
                   calls s' @ [CallGetHtml request' earlier]))
     \<and> (apiRoutes manifest = pre @ earlier # mid @ later # post \<longrightarrow>
            (method' request \<noteq> ''GET'' \<and> method' request \<noteq> ''HEAD'')
              \<or> find (\<lambda>r. test (namedRegex r) (pathname u)) (htmlRoutes manifest) = None \<longrightarrow>
            handler P distFolder opts request s = serveApi P opts earlier request s'
            \<and> (\<exists>cs. calls (snd (snd (handler P distFolder opts request s))) =
                       calls s' @ CallGetApiRoute earlier # cs
                  \<and> (\<forall>c\<in>set cs. \<forall>r. routeOf c = Some r \<longrightarrow> r = earlier)))
     \<and> (notFoundRoutes manifest = pre @ earlier # mid @ later # post \<longrightarrow>
            (method' request \<noteq> ''GET'' \<and> method' request \<noteq> ''HEAD'')
              \<or> find (\<lambda>r. test (namedRegex r) (pathname u)) (htmlRoutes manifest) = None \<longrightarrow>
            find (\<lambda>r. test (namedRegex r) (pathname u)) (apiRoutes manifest) = None \<longrightarrow>
            handler P distFolder opts request s = serveContents P opts 404 earlier request s'
            \<and> (\<forall>ps request'. updateRequestWithConfig P request earlier = Returned (ps, request') \<longrightarrow>
                 calls (snd (snd (handler P distFolder opts request s))) =
                   calls s' @ [CallGetHtml request' earlier]))"
proof -
  have first: "find (\<lambda>r. test (namedRegex r) (pathname u)) (pre @ earlier # mid @ later # post) =
      Some earlier"
    using assms(3,4) by (rule find_first)
  note unfold = handler_acquired [OF assms(1)] dispatch_def assms(2) loops_find
  have html: "handler P distFolder opts request s = serveContents P opts 200 earlier request s'"
    if "htmlRoutes manifest = pre @ earlier # mid @ later # post"
      and "method' request = ''GET'' \<or> method' request = ''HEAD''"
    using that first by (auto simp add: unfold)
  have api: "handler P distFolder opts request s = serveApi P opts earlier request s'"
    if "apiRoutes manifest = pre @ earlier # mid @ later # post"
      and "(method' request \<noteq> ''GET'' \<and> method' request \<noteq> ''HEAD'')
        \<or> find (\<lambda>r. test (namedRegex r) (pathname u)) (htmlRoutes manifest) = None"
    using that first by (auto simp add: unfold)
  have nf: "handler P distFolder opts request s = serveContents P opts 404 earlier request s'"
    if "notFoundRoutes manifest = pre @ earlier # mid @ later # post"
      and "(method' request \<noteq> ''GET'' \<and> method' request \<noteq> ''HEAD'')
        \<or> find (\<lambda>r. test (namedRegex r) (pathname u)) (htmlRoutes manifest) = None"
      and "find (\<lambda>r. test (namedRegex r) (pathname u)) (apiRoutes manifest) = None"
    using that first by (auto simp add: unfold)
  show ?thesis
  proof (intro conjI impI allI)
    assume a: "htmlRoutes manifest = pre @ earlier # mid @ later # post"
      "method' request = ''GET'' \<or> method' request = ''HEAD''"
    show "handler P distFolder opts request s = serveContents P opts 200 earlier request s'"
      by (rule html [OF a])
    fix ps request'
    assume "updateRequestWithConfig P request earlier = Returned (ps, request')"
    then show "calls (snd (snd (handler P distFolder opts request s))) =
        calls s' @ [CallGetHtml request' earlier]"
      by (simp add: html [OF a] serveContents_calls)
  next
    assume a: "apiRoutes manifest = pre @ earlier # mid @ later # post"
      "(method' request \<noteq> ''GET'' \<and> method' request \<noteq> ''HEAD'')
        \<or> find (\<lambda>r. test (namedRegex r) (pathname u)) (htmlRoutes manifest) = None"
    show "handler P distFolder opts request s = serveApi P opts earlier request s'"
      by (rule api [OF a])
    show "\<exists>cs. calls (snd (snd (handler P distFolder opts request s))) =
                 calls s' @ CallGetApiRoute earlier # cs
            \<and> (\<forall>c\<in>set cs. \<forall>r. routeOf c = Some r \<longrightarrow> r = earlier)"
      unfolding api [OF a] by (rule serveApi_calls)
  next
    assume a: "notFoundRoutes manifest = pre @ earlier # mid @ later # post"
      "(method' request \<noteq> ''GET'' \<and> method' request \<noteq> ''HEAD'')
        \<or> find (\<lambda>r. test (namedRegex r) (pathname u)) (htmlRoutes manifest) = None"
      "find (\<lambda>r. test (namedRegex r) (pathname u)) (apiRoutes manifest) = None"
    show "handler P distFolder opts request s = serveContents P opts 404 earlier request s'"
      by (rule nf [OF a])
    fix ps request'
    assume "updateRequestWithConfig P request earlier = Returned (ps, request')"
    then show "calls (snd (snd (handler P distFolder opts request s))) =
        calls s' @ [CallGetHtml request' earlier]"
      by (simp add: nf [OF a] serveContents_calls)
  qed
qed

theorem first_match_wins_witness:
  "handler exPlatform ''dist'' exEcho (exRequest ''GET'' ''http://expo.dev/blog/a'') exOverlapCached =
     (Returned (Response \<lparr>body = page blogRoute, status = 200,
                          headers = [(''Content-Type'', ''text/html'')]\<rparr>),
      \<lparr>method' = ''GET'', url = ''http://expo.dev/blog/a'',
        nonStandard = Some \<lparr>pathname = ''/blog/a'', searchParams = [(''slug'', ''a'')]\<rparr>\<rparr>,
      \<lparr>routesManifest = Some exOverlap, world = 1,
        calls = [CallGetHtml
                   \<lparr>method' = ''GET'', url = ''http://expo.dev/blog/a'',
                     nonStandard = Some \<lparr>pathname = ''/blog/a'', searchParams = [(''slug'', ''a'')]\<rparr>\<rparr>
                   blogRoute]\<rparr>)
   \<and> handler exPlatform ''dist'' exEcho (exRequest ''GET'' ''http://expo.dev/users/42'') exOverlapCached =
     (Returned (Response userResponse),
      \<lparr>method' = ''GET'', url = ''http://expo.dev/users/42'',
        nonStandard = Some \<lparr>pathname = ''/users/42'', searchParams = [(''id'', ''42'')]\<rparr>\<rparr>,
      \<lparr>routesManifest = Some exOverlap, world = 2,
        calls = [CallGetApiRoute usersRoute,
                 CallRouteHandler usersRoute
                   \<lparr>method' = ''GET'', url = ''http://expo.dev/users/42'',
                     nonStandard = Some \<lparr>pathname = ''/users/42'', searchParams = [(''id'', ''42'')]\<rparr>\<rparr>
                   [''id'' \<mapsto> Captured ''42'']]\<rparr>)
   \<and> handler exPlatform ''dist'' exEcho (exRequest ''GET'' ''http://expo.dev/nowhere'') exOverlapCached =
     (Returned (Response \<lparr>body = page notFoundRoute, status = 404,
                          headers = [(''Content-Type'', ''text/html'')]\<rparr>),
      \<lparr>method' = ''GET'', url = ''http://expo.dev/nowhere'',
        nonStandard = Some \<lparr>pathname = ''/nowhere'',
          searchParams = [(''not-found'', ''nowhere'')]\<rparr>\<rparr>,
      \<lparr>routesManifest = Some exOverlap, world = 1,
        calls = [CallGetHtml
                   \<lparr>method' = ''GET'', url = ''http://expo.dev/nowhere'',
                     nonStandard = Some \<lparr>pathname = ''/nowhere'',
                       searchParams = [(''not-found'', ''nowhere'')]\<rparr>\<rparr>
                   notFoundRoute]\<rparr>)"
proof -
  have acquired: "acquireManifest exPlatform ''dist'' exEcho exOverlapCached =
      (Inr exOverlap, exOverlapCached)"
    by (simp add: acquireManifest_def exEcho_def exOptions_def exOverlapCached_def)
  have parsed: "newURL exPlatform (url (exRequest ''GET'' (''http://expo.dev'' @ p))) ''http://expo.dev'' =
      Some \<lparr>pathname = p, searchParams = []\<rparr>"
    if "p \<in> {''/blog/a'', ''/users/42'', ''/nowhere''}" for p
    using that by (auto simp add: exPlatform_def exRequest_def exParse_def)
  have html: "handler exPlatform ''dist'' exEcho (exRequest ''GET'' ''http://expo.dev/blog/a'')
      exOverlapCached =
      serveContents exPlatform exEcho 200 blogRoute (exRequest ''GET'' ''http://expo.dev/blog/a'')
        exOverlapCached"
    using first_match_wins [OF acquired parsed [of "''/blog/a''", simplified],
        where pre = "[indexRoute]" and earlier = blogRoute and mid = "[]" and later = blogRestRoute
        and post = "[]"]
    by (simp add: blogRestRegex_def blogRestRoute_def missingRoute_def exOverlap_def exEcho_def
        exOverlapCached_def ex_defs test_def exec_def)
  have api: "handler exPlatform ''dist'' exEcho (exRequest ''GET'' ''http://expo.dev/users/42'')
      exOverlapCached =
      serveApi exPlatform exEcho usersRoute (exRequest ''GET'' ''http://expo.dev/users/42'')
        exOverlapCached"
    using first_match_wins [OF acquired parsed [of "''/users/42''", simplified],
        where pre = "[goneRoute]" and earlier = usersRoute and mid = "[]" and later = usersRestRoute
        and post = "[]"]
    by (simp add: blogRestRegex_def blogRestRoute_def missingRoute_def exOverlap_def exEcho_def
        exOverlapCached_def ex_defs test_def exec_def)
  have nf: "handler exPlatform ''dist'' exEcho (exRequest ''GET'' ''http://expo.dev/nowhere'')
      exOverlapCached =
      serveContents exPlatform exEcho 404 notFoundRoute (exRequest ''GET'' ''http://expo.dev/nowhere'')
        exOverlapCached"
    using first_match_wins [OF acquired parsed [of "''/nowhere''", simplified],
        where pre = "[]" and earlier = notFoundRoute and mid = "[]" and later = missingRoute
        and post = "[]"]
    by (simp add: blogRestRegex_def blogRestRoute_def missingRoute_def exOverlap_def exEcho_def
        exOverlapCached_def ex_defs test_def exec_def)
  show ?thesis
    unfolding html api nf
    by (simp add: blogRestRegex_def blogRestRoute_def missingRoute_def exOverlap_def exEcho_def
        exOverlapCached_def ex_defs model_defs)
qed

subsection \<open>C7: the method gates the HTML routes only\<close>

text \<open>
  C7. Once the handler holds the manifest of the call:
  \<^item> for a method that is neither \<^verbatim>\<open>GET\<close> nor \<^verbatim>\<open>HEAD\<close>, the result of the handler (the
    response, the request and the state, with the calls made) is the one it has with any
    other list of HTML routes in the manifest: \<^verbatim>\<open>htmlRoutes\<close> is not read;
  \<^item> for every method, when the scan of \<^verbatim>\<open>htmlRoutes\<close> returns nothing (the method is
    neither \<^verbatim>\<open>GET\<close> nor \<^verbatim>\<open>HEAD\<close>, or no descriptor matches), \<^verbatim>\<open>apiRoutes\<close> is scanned
    and its first matching descriptor is served;
  \<^item> for every method, when that scan finds no descriptor either, \<^verbatim>\<open>notFoundRoutes\<close> is
    scanned, and the response built from the non-empty string that \<open>getHtml\<close> resolves to
    for its first matching descriptor has the status 404 (and not 200), with the content
    type \<^verbatim>\<open>text/html\<close>.
\<close>

theorem method_gates_html_only:
  assumes "acquireManifest P distFolder opts s = (Inr manifest, s')"
    and "newURL P (url request) ''http://expo.dev'' = Some u"
  shows "(method' request \<noteq> ''GET'' \<and> method' request \<noteq> ''HEAD'' \<longrightarrow>
            (\<forall>hs. handler P distFolder opts request s =
                     dispatch P opts (manifest\<lparr>htmlRoutes := hs\<rparr>) request s'))
     \<and> (\<forall>route.
           (method' request \<noteq> ''GET'' \<and> method' request \<noteq> ''HEAD'')
             \<or> find (\<lambda>r. test (namedRegex r) (pathname u)) (htmlRoutes manifest) = None \<longrightarrow>
           find (\<lambda>r. test (namedRegex r) (pathname u)) (apiRoutes manifest) = Some route \<longrightarrow>
           handler P distFolder opts request s = serveApi P opts route request s')
     \<and> (\<forall>route ps request' c w.
           (method' request \<noteq> ''GET'' \<and> method' request \<noteq> ''HEAD'')
             \<or> find (\<lambda>r. test (namedRegex r) (pathname u)) (htmlRoutes manifest) = None \<longrightarrow>
           find (\<lambda>r. test (namedRegex r) (pathname u)) (apiRoutes manifest) = None \<longrightarrow>
           find (\<lambda>r. test (namedRegex r) (pathname u)) (notFoundRoutes manifest) = Some route \<longrightarrow>
           updateRequestWithConfig P request route = Returned (ps, request') \<longrightarrow>
           getHtml opts request' route (world s') = (Returned (Html c), w) \<longrightarrow>
           c \<noteq> [] \<longrightarrow>
           fst (handler P distFolder opts request s) =
             Returned (Response \<lparr>body = c, status = 404,
                                 headers = [(''Content-Type'', ''text/html'')]\<rparr>))"
proof (intro conjI allI impI)
  fix hs
  assume "method' request \<noteq> ''GET'' \<and> method' request \<noteq> ''HEAD''"
  then show "handler P distFolder opts request s =
      dispatch P opts (manifest\<lparr>htmlRoutes := hs\<rparr>) request s'"
    by (simp add: handler_acquired [OF assms(1)] dispatch_def assms(2) split: option.splits)
next
  fix route
  assume "(method' request \<noteq> ''GET'' \<and> method' request \<noteq> ''HEAD'')
      \<or> find (\<lambda>r. test (namedRegex r) (pathname u)) (htmlRoutes manifest) = None"
    and "find (\<lambda>r. test (namedRegex r) (pathname u)) (apiRoutes manifest) = Some route"
  then show "handler P distFolder opts request s = serveApi P opts route request s'"
    by (auto simp add: handler_acquired [OF assms(1)] dispatch_def assms(2) loops_find)
next
  fix route ps request' c w
  assume "(method' request \<noteq> ''GET'' \<and> method' request \<noteq> ''HEAD'')
      \<or> find (\<lambda>r. test (namedRegex r) (pathname u)) (htmlRoutes manifest) = None"
    and "find (\<lambda>r. test (namedRegex r) (pathname u)) (apiRoutes manifest) = None"
    and "find (\<lambda>r. test (namedRegex r) (pathname u)) (notFoundRoutes manifest) = Some route"
    and "updateRequestWithConfig P request route = Returned (ps, request')"
    and "getHtml opts request' route (world s') = (Returned (Html c), w)"
    and "c \<noteq> []"
  then show "fst (handler P distFolder opts request s) =
      Returned (Response \<lparr>body = c, status = 404, headers = [(''Content-Type'', ''text/html'')]\<rparr>)"
    by (auto simp add: handler_acquired [OF assms(1)] dispatch_def assms(2) loops_find
        serveContents_def invoke_def textHtml_def)
qed

theorem method_gates_html_only_witness:
  "handler exPlatform ''dist'' exOptions (exRequest ''POST'' ''http://expo.dev/'') exStart =
     dispatch exPlatform exOptions (exManifest\<lparr>htmlRoutes := []\<rparr>)
       (exRequest ''POST'' ''http://expo.dev/'')
       \<lparr>routesManifest = Some exManifest, world = 1, calls = [CallGetRoutesManifest ''dist'']\<rparr>
   \<and> handler exPlatform ''dist'' exOptions (exRequest ''POST'' ''http://expo.dev/users/42'') exStart =
     serveApi exPlatform exOptions usersRoute (exRequest ''POST'' ''http://expo.dev/users/42'')
       \<lparr>routesManifest = Some exManifest, world = 1, calls = [CallGetRoutesManifest ''dist'']\<rparr>
   \<and> fst (handler exPlatform ''dist'' exOptions (exRequest ''POST'' ''http://expo.dev/nowhere'') exStart) =
     Returned (Response \<lparr>body = ''<h1>Lost</h1>'', status = 404,
                         headers = [(''Content-Type'', ''text/html'')]\<rparr>)"
proof -
  let ?s' = "\<lparr>routesManifest = Some exManifest, world = 1, calls = [CallGetRoutesManifest ''dist'']\<rparr>"
  have acquired: "acquireManifest exPlatform ''dist'' exOptions exStart = (Inr exManifest, ?s')"
    by (simp add: acquireManifest_def invoke_def exOptions_def exPlatform_def exStart_def)
  have parsed: "newURL exPlatform (url (exRequest m (''http://expo.dev'' @ p))) ''http://expo.dev'' =
      Some \<lparr>pathname = p, searchParams = []\<rparr>"
    if "p \<in> {''/users/42'', ''/nowhere''}" for m p
    using that by (auto simp add: exPlatform_def exRequest_def exParse_def)
  have root: "newURL exPlatform (url (exRequest ''POST'' ''http://expo.dev/'')) ''http://expo.dev'' =
      Some \<lparr>pathname = ''/'', searchParams = []\<rparr>"
    by (simp add: exPlatform_def exRequest_def exParse_def)
  have "handler exPlatform ''dist'' exOptions (exRequest ''POST'' ''http://expo.dev/'') exStart =
     dispatch exPlatform exOptions (exManifest\<lparr>htmlRoutes := []\<rparr>)
       (exRequest ''POST'' ''http://expo.dev/'') ?s'"
    using method_gates_html_only [OF acquired root] by (simp add: exRequest_def)
  moreover
  have "handler exPlatform ''dist'' exOptions (exRequest ''POST'' ''http://expo.dev/users/42'') exStart =
     serveApi exPlatform exOptions usersRoute (exRequest ''POST'' ''http://expo.dev/users/42'') ?s'"
    using method_gates_html_only [OF acquired parsed [of "''/users/42''" "''POST''", simplified]]
    by (simp add: ex_defs test_def exec_def)
  moreover
  have "fst (handler exPlatform ''dist'' exOptions (exRequest ''POST'' ''http://expo.dev/nowhere'') exStart) =
     Returned (Response \<lparr>body = ''<h1>Lost</h1>'', status = 404,
                         headers = [(''Content-Type'', ''text/html'')]\<rparr>)"
    using method_gates_html_only [OF acquired parsed [of "''/nowhere''" "''POST''", simplified],
        THEN conjunct2, THEN conjunct2, rule_format,
        of notFoundRoute "[''not-found'' \<mapsto> Captured ''nowhere'']"
          "\<lparr>method' = ''POST'', url = ''http://expo.dev/nowhere'',
            nonStandard = Some \<lparr>pathname = ''/nowhere'',
              searchParams = [(''not-found'', ''nowhere'')]\<rparr>\<rparr>"
          "''<h1>Lost</h1>''" 2]
    by (simp add: ex_defs model_defs)
  ultimately show ?thesis by blast
qed

subsection \<open>C9: two calls with the same request\<close>

text \<open>
  With deterministic capabilities, the outcome of each part of the handler depends neither on
  the world, nor on the calls recorded, nor on what the slot of the request held before; and
  no part of the handler after the acquisition of the manifest changes the variable
  \<^verbatim>\<open>routesManifest\<close>.
\<close>

lemma same_request:
  "method' r2 = method' r1 \<Longrightarrow> url r2 = url r1 \<Longrightarrow>
     r2\<lparr>nonStandard := x\<rparr> = (r1::ExpoRequest)\<lparr>nonStandard := x\<rparr>"
  by (cases r1; cases r2) simp

lemma update_same_request:
  "method' r2 = method' r1 \<Longrightarrow> url r2 = url r1 \<Longrightarrow>
     updateRequestWithConfig P r2 route = updateRequestWithConfig P r1 route"
  by (simp add: updateRequestWithConfig_def same_request [of r2 r1] split: option.splits prod.splits)

lemma det_loader:
  "deterministic P opts \<Longrightarrow> fst (getRoutesManifest P d w) = fst (getRoutesManifest P d w')"
  unfolding deterministic_def by metis

lemma det_supplier:
  "deterministic P opts \<Longrightarrow> getInternalRoutesManifest opts = Some g \<Longrightarrow>
     fst (g d w) = fst (g d w')"
  unfolding deterministic_def by metis

lemma det_getHtml:
  "deterministic P opts \<Longrightarrow> fst (getHtml opts req r w) = fst (getHtml opts req r w')"
  unfolding deterministic_def by metis

lemma det_getApiRoute:
  "deterministic P opts \<Longrightarrow> fst (getApiRoute opts r w) = fst (getApiRoute opts r w')"
  unfolding deterministic_def by metis

lemma det_hook:
  "deterministic P opts \<Longrightarrow>
     fst (logApiRouteExecutionError opts e w) = fst (logApiRouteExecutionError opts e w')"
  unfolding deterministic_def by metis

lemma det_routeHandler:
  "deterministic P opts \<Longrightarrow> fst (getApiRoute opts r w) = Returned (Module exports) \<Longrightarrow>
     exports m = Function f \<Longrightarrow> fst (f req ps w1) = fst (f req ps w2)"
  unfolding deterministic_def by metis

lemma catchBlock_det:
  assumes "deterministic P opts"
  shows "fst (catchBlock opts e s2) = fst (catchBlock opts e s1)"
  using det_hook [OF assms, of e "world s2" "world s1"]
  by (cases e; cases "logApiRouteExecutionError opts e (world s1)";
      cases "logApiRouteExecutionError opts e (world s2)")
    (auto simp add: catchBlock_def invoke_def split: outcome.splits)

lemma serveContents_det:
  assumes "deterministic P opts" and "method' r2 = method' r1" and "url r2 = url r1"
  shows "fst (serveContents P opts st route r2 s2) = fst (serveContents P opts st route r1 s1)"
proof (cases "updateRequestWithConfig P r1 route")
  case (Thrown e)
  then show ?thesis
    by (simp add: serveContents_def update_same_request [OF assms(2,3)])
next
  case (Returned pr)
  obtain ps request' where pr: "pr = (ps, request')" by (cases pr)
  obtain c1 w1 where h1: "getHtml opts request' route (world s1) = (c1, w1)"
    by (cases "getHtml opts request' route (world s1)")
  obtain c2 w2 where h2: "getHtml opts request' route (world s2) = (c2, w2)"
    by (cases "getHtml opts request' route (world s2)")
  from det_getHtml [OF assms(1), of request' route "world s1" "world s2"] h1 h2
  have "c2 = c1" by simp
  then show ?thesis
    by (simp add: serveContents_def update_same_request [OF assms(2,3)] Returned pr invoke_def h1 h2
        split: outcome.splits contents.splits)
qed

lemma serveApi_det:
  assumes "deterministic P opts" and "method' r2 = method' r1" and "url r2 = url r1"
  shows "fst (serveApi P opts route r2 s2) = fst (serveApi P opts route r1 s1)"
proof -
  obtain a1 w1 where g1: "getApiRoute opts route (world s1) = (a1, w1)"
    by (cases "getApiRoute opts route (world s1)")
  obtain a2 w2 where g2: "getApiRoute opts route (world s2) = (a2, w2)"
    by (cases "getApiRoute opts route (world s2)")
  from det_getApiRoute [OF assms(1), of route "world s1" "world s2"] g1 g2
  have a: "a2 = a1" by simp
  note upd = update_same_request [OF assms(2,3)]
  note cb = catchBlock_det [OF assms(1)]
  show ?thesis
  proof (cases a1)
    case (Thrown e)
    then show ?thesis by (simp add: serveApi_def invoke_def g1 g2 a)
  next
    case (Returned func)
    show ?thesis
    proof (cases func)
      case (ApiResponse r)
      then show ?thesis by (simp add: serveApi_def invoke_def g1 g2 a Returned)
    next
      case Nullish
      then show ?thesis by (simp add: serveApi_def invoke_def g1 g2 a Returned)
    next
      case (Module exports)
      show ?thesis
      proof (cases "updateRequestWithConfig P r1 route")
        case (Thrown e)
        then show ?thesis
          by (simp add: serveApi_def invoke_def g1 g2 a Returned Module upd assms(2)
              split: export.splits)
      next
        case upd1: (Returned pr)
        obtain ps request' where pr: "pr = (ps, request')" by (cases pr)
        show ?thesis
        proof (cases "exports (method' r1)")
          case Falsy
          then show ?thesis
            by (simp add: serveApi_def invoke_def g1 g2 a Returned Module assms(2))
        next
          case NotCallable
          then show ?thesis
            using cb [of notAFunction "s2\<lparr>world := w2, calls := calls s2 @ [CallGetApiRoute route]\<rparr>"
                "s1\<lparr>world := w1, calls := calls s1 @ [CallGetApiRoute route]\<rparr>"]
            by (simp add: serveApi_def invoke_def g1 g2 a Returned Module assms(2) upd upd1 pr
                case_prod_unfold)
        next
          case (Function f)
          obtain o1 v1 where f1: "f request' ps w1 = (o1, v1)" by (cases "f request' ps w1")
          obtain o2 v2 where f2: "f request' ps w2 = (o2, v2)" by (cases "f request' ps w2")
          have "fst (f request' ps w2) = fst (f request' ps w1)"
            by (rule det_routeHandler [where exports = exports and m = "method' r1" and r = route
                  and w = "world s1", OF assms(1)])
              (simp_all add: g1 Returned Module Function)
          with f1 f2 have o: "o2 = o1" by simp
          show ?thesis
          proof (cases o1)
            case (Returned v)
            then show ?thesis
              by (simp add: serveApi_def invoke_def g1 g2 a \<open>a1 = Returned func\<close> Module assms(2)
                  upd upd1 pr Function f1 f2 o)
          next
            case (Thrown e)
            then show ?thesis
              using cb [of e
                  "s2\<lparr>world := v2, calls := calls s2 @ [CallGetApiRoute route, CallRouteHandler route request' ps]\<rparr>"
                  "s1\<lparr>world := v1, calls := calls s1 @ [CallGetApiRoute route, CallRouteHandler route request' ps]\<rparr>"]
              by (simp add: serveApi_def invoke_def g1 g2 a \<open>a1 = Returned func\<close> Module assms(2)
                  upd upd1 pr Function f1 f2 o case_prod_unfold)
          qed
        qed
      qed
    qed
  qed
qed

lemma dispatch_det:
  assumes "deterministic P opts" and "method' r2 = method' r1" and "url r2 = url r1"
  shows "fst (dispatch P opts manifest r2 s2) = fst (dispatch P opts manifest r1 s1)"
  using serveContents_det [OF assms, of _ _ s2 s1] serveApi_det [OF assms, of _ s2 s1]
  by (simp add: dispatch_def loops_find assms(2,3) split: option.splits)

lemma catchBlock_keeps_manifest: "routesManifest (snd (catchBlock opts e s)) = routesManifest s"
  by (cases e; cases "logApiRouteExecutionError opts e (world s)")
    (auto simp add: catchBlock_def invoke_def split: outcome.splits)

lemma serveContents_keeps_manifest:
  "routesManifest (snd (snd (serveContents P opts st route request s))) = routesManifest s"
  by (auto simp add: serveContents_def invoke_def split: outcome.splits prod.splits contents.splits)

lemma serveApi_keeps_manifest:
  "routesManifest (snd (snd (serveApi P opts route request s))) = routesManifest s"
  by (auto simp add: serveApi_def invoke_def case_prod_unfold catchBlock_keeps_manifest
      split: outcome.splits api_route.splits export.splits)

lemma dispatch_keeps_manifest:
  "routesManifest (snd (snd (dispatch P opts manifest request s))) = routesManifest s"
  by (auto simp add: dispatch_def loops_find serveContents_keeps_manifest serveApi_keeps_manifest
      split: option.splits)

lemma acquire_again:
  assumes "deterministic P opts"
    and "acquireManifest P distFolder opts s = (x, s')"
    and "routesManifest t = routesManifest s'"
  shows "fst (acquireManifest P distFolder opts t) = x"
proof (cases "getInternalRoutesManifest opts")
  case (Some g)
  obtain o1 w1 where g1: "g distFolder (world s) = (o1, w1)" by (cases "g distFolder (world s)")
  obtain o2 w2 where g2: "g distFolder (world t) = (o2, w2)" by (cases "g distFolder (world t)")
  from det_supplier [OF assms(1) Some, of distFolder "world s" "world t"] g1 g2
  have "o2 = o1" by simp
  with assms(2) show ?thesis
    by (auto simp add: acquireManifest_def Some invoke_def g1 g2 split: outcome.splits option.splits)
next
  case None
  obtain o1 w1 where l1: "getRoutesManifest P distFolder (world s) = (o1, w1)"
    by (cases "getRoutesManifest P distFolder (world s)")
  obtain o2 w2 where l2: "getRoutesManifest P distFolder (world t) = (o2, w2)"
    by (cases "getRoutesManifest P distFolder (world t)")
  from det_loader [OF assms(1), of distFolder "world s" "world t"] l1 l2
  have "o2 = o1" by simp
  with assms(2,3) show ?thesis
    by (auto simp add: acquireManifest_def None invoke_def l1 l2 split: outcome.splits option.splits)
qed

lemma exOptions_deterministic: "deterministic exPlatform exOptions"
  by (auto simp add: deterministic_def ex_defs split: if_splits)

text \<open>
  C9. With deterministic capabilities and route handlers, a second call of the handler, made
  in the state that a first call left (the manifest it cached, the world as the capabilities
  changed it) and with a request of the same method and URL, has the outcome of the first
  call: the same response, or the same exception. The manifest is the same in both calls:
  the one the deterministic supplier or loader yields, or the one held in
  \<^verbatim>\<open>routesManifest\<close>.
\<close>

theorem second_call_same_response:
  assumes "deterministic P opts"
    and "method' request2 = method' request1"
    and "url request2 = url request1"
  shows "fst (handler P distFolder opts request2 (snd (snd (handler P distFolder opts request1 s)))) =
         fst (handler P distFolder opts request1 s)"
proof -
  obtain x s' where acq: "acquireManifest P distFolder opts s = (x, s')"
    by (cases "acquireManifest P distFolder opts s")
  show ?thesis
  proof (cases x)
    case (Inl early)
    with acq have first: "handler P distFolder opts request1 s = (early, request1, s')"
      by (simp add: handler_def)
    obtain t' where "acquireManifest P distFolder opts s' = (Inl early, t')"
      using acquire_again [OF assms(1) acq, of s'] Inl
      by (cases "acquireManifest P distFolder opts s'") simp
    then have "handler P distFolder opts request2 s' = (early, request2, t')"
      by (simp add: handler_def)
    then show ?thesis
      by (simp add: first)
  next
    case (Inr manifest)
    with acq have first: "handler P distFolder opts request1 s = dispatch P opts manifest request1 s'"
      by (simp add: handler_def)
    let ?t = "snd (snd (dispatch P opts manifest request1 s'))"
    have "routesManifest ?t = routesManifest s'"
      by (rule dispatch_keeps_manifest)
    from acquire_again [OF assms(1) acq this] Inr
    obtain t' where "acquireManifest P distFolder opts ?t = (Inr manifest, t')"
      by (cases "acquireManifest P distFolder opts ?t") simp
    then have "handler P distFolder opts request2 ?t = dispatch P opts manifest request2 t'"
      by (simp add: handler_def)
    then show ?thesis
      by (simp add: first dispatch_det [OF assms])
  qed
qed

theorem second_call_same_response_witness:
  "deterministic exPlatform exOptions
   \<and> fst (handler exPlatform ''dist'' exOptions (exRequest ''GET'' ''http://expo.dev/users/42'')
        (snd (snd (handler exPlatform ''dist'' exOptions (exRequest ''GET'' ''http://expo.dev/users/42'')
           exStart)))) =
     fst (handler exPlatform ''dist'' exOptions (exRequest ''GET'' ''http://expo.dev/users/42'') exStart)
   \<and> fst (handler exPlatform ''dist'' exOptions (exRequest ''GET'' ''http://expo.dev/users/42'') exStart) =
     Returned (Response userResponse)"
proof -
  have "fst (handler exPlatform ''dist'' exOptions (exRequest ''GET'' ''http://expo.dev/users/42'') exStart) =
     Returned (Response userResponse)"
    by (simp add: ex_defs model_defs)
  with second_call_same_response [OF exOptions_deterministic, of
      "exRequest ''GET'' ''http://expo.dev/users/42''" "exRequest ''GET'' ''http://expo.dev/users/42''"
      "''dist''" exStart]
    exOptions_deterministic
  show ?thesis by simp
qed

end
